theory Spec2Isabelle
  imports Complex_Main
begin

section \<open>Numbers, vectors and rotations\<close>

text \<open>
  The library computes with JavaScript numbers. They are modelled as real numbers:
  rounding, NaN and the infinities are outside the model, so every equation below is
  an equation of exact arithmetic.
\<close>

text \<open>
  Modelled from the spec: \<open>Vector3\<close>, \<open>Quaternion\<close> and \<open>Euler\<close> are classes of
  three.js, which \<open>builder.ts\<close> imports and which is not among the repository's
  files. The spec names what the builder relies on: a translation vector, a rotation
  that composes, and Euler angles whose order \<open>'ZYX'\<close> is the intrinsic rotation about
  Z, then Y, then X. The definitions of this section give the methods that the builder
  calls, each with the arithmetic of the three.js method of the same name.
\<close>

datatype Vector3 = Vector3 (vx: real) (vy: real) (vz: real)

datatype Quaternion = Quaternion (qx: real) (qy: real) (qz: real) (qw: real)

text \<open>Modelled from the spec: the two rotation orders that occur. \<open>'XYZ'\<close> is the
  default order of an \<open>Object3D\<close>'s \<open>rotation\<close>, \<open>'ZYX'\<close> is the one \<open>rpyToEuler\<close>
  asks for.\<close>

datatype EulerOrder = XYZ | ZYX

datatype Euler = Euler (ex: real) (ey: real) (ez: real) (order: EulerOrder)

text \<open>Modelled from the spec: \<open>Vector3.length\<close>, \<open>multiplyScalar\<close>, \<open>divideScalar\<close>,
  \<open>normalize\<close> (which divides by \<open>length() || 1\<close>, so the zero vector stays zero) and
  \<open>addScaledVector\<close> of three.js.\<close>

definition vlength :: "Vector3 \<Rightarrow> real" where
  "vlength v = sqrt (vx v * vx v + vy v * vy v + vz v * vz v)"

definition multiplyScalar :: "Vector3 \<Rightarrow> real \<Rightarrow> Vector3" where
  "multiplyScalar v s = Vector3 (vx v * s) (vy v * s) (vz v * s)"

definition divideScalar :: "Vector3 \<Rightarrow> real \<Rightarrow> Vector3" where
  "divideScalar v s = multiplyScalar v (1 / s)"

definition normalize :: "Vector3 \<Rightarrow> Vector3" where
  "normalize v = divideScalar v (if vlength v = 0 then 1 else vlength v)"

definition addScaledVector :: "Vector3 \<Rightarrow> Vector3 \<Rightarrow> real \<Rightarrow> Vector3" where
  "addScaledVector this v s =
     Vector3 (vx this + vx v * s) (vy this + vy v * s) (vz this + vz v * s)"

text \<open>Modelled from the spec: \<open>Quaternion.setFromEuler\<close> of three.js, the half-angle
  products, one case per order. The case \<open>'ZYX'\<close> is the product of the rotation about
  Z, the rotation about Y and the rotation about X, in this order (proved below): the
  intrinsic rotation that the spec describes.\<close>

definition setFromEuler :: "Euler \<Rightarrow> Quaternion" where
  "setFromEuler e =
     (let c1 = cos (ex e / 2); c2 = cos (ey e / 2); c3 = cos (ez e / 2);
          s1 = sin (ex e / 2); s2 = sin (ey e / 2); s3 = sin (ez e / 2)
      in case order e of
           XYZ \<Rightarrow> Quaternion (s1 * c2 * c3 + c1 * s2 * s3)
                             (c1 * s2 * c3 - s1 * c2 * s3)
                             (c1 * c2 * s3 + s1 * s2 * c3)
                             (c1 * c2 * c3 - s1 * s2 * s3)
         | ZYX \<Rightarrow> Quaternion (s1 * c2 * c3 - c1 * s2 * s3)
                             (c1 * s2 * c3 + s1 * c2 * s3)
                             (c1 * c2 * s3 - s1 * s2 * c3)
                             (c1 * c2 * c3 + s1 * s2 * s3))"

text \<open>Modelled from the spec: \<open>Quaternion.setFromAxisAngle(axis, angle)\<close> of three.js,
  the rotation by the angle about the axis; the axis is taken as it is (three.js
  assumes it normalised).\<close>

definition setFromAxisAngle :: "Vector3 \<Rightarrow> real \<Rightarrow> Quaternion" where
  "setFromAxisAngle a angle =
     (let halfAngle = angle / 2; s = sin halfAngle
      in Quaternion (vx a * s) (vy a * s) (vz a * s) (cos halfAngle))"

text \<open>Modelled from the spec: \<open>a.multiply(b)\<close> of three.js, that is
  \<open>multiplyQuaternions(a, b)\<close>: the composition \<open>a b\<close> of two rotations, as the
  Hamilton product.\<close>

definition multiply :: "Quaternion \<Rightarrow> Quaternion \<Rightarrow> Quaternion" where
  "multiply a b =
     Quaternion (qx a * qw b + qw a * qx b + qy a * qz b - qz a * qy b)
                (qy a * qw b + qw a * qy b + qz a * qx b - qx a * qz b)
                (qz a * qw b + qw a * qz b + qx a * qy b - qy a * qx b)
                (qw a * qw b - qx a * qx b - qy a * qy b - qz a * qz b)"

text \<open>Modelled from the spec: \<open>Vector3.applyQuaternion\<close> of three.js, the vector
  rotated by a unit quaternion. The builder does not call it; it is what a node's
  quaternion means for the points below the node, and it is how the rotations of this
  section are compared.\<close>

definition applyQuaternion :: "Vector3 \<Rightarrow> Quaternion \<Rightarrow> Vector3" where
  "applyQuaternion v q =
     (let tx = 2 * (qy q * vz v - qz q * vy v);
          ty = 2 * (qz q * vx v - qx q * vz v);
          tz = 2 * (qx q * vy v - qy q * vx v)
      in Vector3 (vx v + qw q * tx + qy q * tz - qz q * ty)
                 (vy v + qw q * ty + qz q * tx - qx q * tz)
                 (vz v + qw q * tz + qx q * ty - qy q * tx))"

text \<open>The unit vectors of the three fixed axes.\<close>

definition axisX :: Vector3 where "axisX = Vector3 1 0 0"
definition axisY :: Vector3 where "axisY = Vector3 0 1 0"
definition axisZ :: Vector3 where "axisZ = Vector3 0 0 1"

text \<open>A unit quaternion, the only kind that stands for a rotation.\<close>

definition unitQ :: "Quaternion \<Rightarrow> bool" where
  "unitQ q = (qx q * qx q + qy q * qy q + qz q * qz q + qw q * qw q = 1)"

section \<open>The model's types (\<open>types.ts\<close>)\<close>

text \<open>
  Interfaces are records and optional fields are options. Field names that several
  interfaces share (\<open>name\<close>, \<open>origin\<close>, \<open>geometry\<close>) carry the interface's initial
  as a prefix. A joint's \<open>type\<close> is kept as the string it is at run time:
  \<open>parseJoint\<close> casts the attribute's text to \<open>Joint['type']\<close> without a check.
\<close>

record RPY =
  rpy_r :: real
  rpy_p :: real
  rpy_y :: real

record Pose =
  xyz :: Vector3
  rpy :: RPY

text \<open>The pose \<open>{ xyz: new Vector3(0, 0, 0), rpy: { r: 0, p: 0, y: 0 } }\<close> that the parser
  writes where an origin element is missing.\<close>

definition zeroPose :: Pose where
  "zeroPose = \<lparr>xyz = Vector3 0 0 0, rpy = \<lparr>rpy_r = 0, rpy_p = 0, rpy_y = 0\<rparr>\<rparr>"

record Color =
  col_r :: real
  col_g :: real
  col_b :: real
  col_a :: real

record Material =
  mat_name :: string
  color :: "Color option"
  texture :: "string option"

record Inertia =
  ixx :: real
  ixy :: real
  ixz :: real
  iyy :: real
  iyz :: real
  izz :: real

record Inertial =
  i_origin :: Pose
  mass :: real
  inertia :: Inertia

datatype Geometry =
    BoxGeometry Vector3
  | CylinderGeometry real real
  | SphereGeometry real
  | MeshGeometry string "Vector3 option"
  | CapsuleGeometry real real

text \<open>A visual's \<open>material\<close> is \<open>Material | string\<close> in \<open>types.ts\<close>; the parser
  only ever stores the name.\<close>

record Visual =
  v_name :: "string option"
  v_origin :: Pose
  v_geometry :: Geometry
  v_material :: "string option"

record Collision =
  c_name :: "string option"
  c_origin :: Pose
  c_geometry :: Geometry

record SelfCollision =
  sc_origin :: Pose
  sc_geometry :: Geometry

record Link =
  l_name :: string
  inertial :: "Inertial option"
  visuals :: "Visual list"
  collisions :: "Collision list"
  selfCollision :: "SelfCollision option"

record JointAxis =
  axis_xyz :: Vector3

record JointLimits =
  lower :: "real option"
  upper :: "real option"
  effort :: "real option"
  velocity :: "real option"

record SafetyController =
  softLowerLimit :: "real option"
  softUpperLimit :: "real option"
  kPosition :: "real option"
  kVelocity :: "real option"

record JointDynamics =
  damping :: "real option"
  friction :: "real option"

record JointMimic =
  mimic_joint :: string
  multiplier :: "real option"
  offset :: "real option"

record Joint =
  j_name :: string
  j_type :: string
  j_parent :: string
  j_child :: string
  j_origin :: Pose
  j_axis :: "JointAxis option"
  j_limits :: "JointLimits option"
  j_safetyController :: "SafetyController option"
  j_dynamics :: "JointDynamics option"
  j_mimic :: "JointMimic option"

subsection \<open>JavaScript's \<open>Map\<close>\<close>

text \<open>
  A \<open>Map\<close> iterates in insertion order, and \<open>set\<close> on a key that is present
  replaces the value where the key stands. It is an association list with that
  \<open>set\<close>.
\<close>

type_synonym ('k, 'v) JSMap = "('k \<times> 'v) list"

definition Map_get :: "('k, 'v) JSMap \<Rightarrow> 'k \<Rightarrow> 'v option" where
  "Map_get m k = map_of m k"

fun Map_set :: "('k, 'v) JSMap \<Rightarrow> 'k \<Rightarrow> 'v \<Rightarrow> ('k, 'v) JSMap" where
  "Map_set [] k v = [(k, v)]"
| "Map_set ((k', v') # m) k v =
     (if k' = k then (k, v) # m else (k', v') # Map_set m k v)"

definition Map_keys :: "('k, 'v) JSMap \<Rightarrow> 'k list" where
  "Map_keys m = map fst m"

definition Map_values :: "('k, 'v) JSMap \<Rightarrow> 'v list" where
  "Map_values m = map snd m"

text \<open>
  \<open>Record<string, string>\<close> is an object, and \<open>obj[key]\<close> finds the object's own
  property or, failing that, a member that the object inherits: for an object literal
  the members of \<open>Object.prototype\<close> (\<open>constructor\<close>, \<open>toString\<close>, ...), which are
  functions or objects and so count as true. \<open>ownProperties\<close> holds the own properties;
  \<open>inheritedText key\<close> is the text that a template literal makes of the member
  inherited under \<open>key\<close>, and \<open>None\<close> when the object inherits none.
\<close>

record StringRecord =
  ownProperties :: "(string \<times> string) list"
  inheritedText :: "string \<Rightarrow> string option"

record ParseURDFOptions =
  packageMap :: "StringRecord option"
  workingPath :: "string option"
  ignoreGazebo :: "bool option"
  ignoreTransmission :: "bool option"

record RobotModel =
  m_name :: string
  materials :: "(string, Material) JSMap"
  links :: "(string, Link) JSMap"
  joints :: "(string, Joint) JSMap"
  rootLink :: "string option"

section \<open>The parser (\<open>parser.ts\<close>)\<close>

subsection \<open>The parsed document\<close>

text \<open>
  Modelled from the spec: the output of \<open>fast-xml-parser\<close>, which \<open>parser.ts\<close> imports
  and which is not among the repository's files; the spec's generic attributed-element
  tree, with repeated sibling tags collected into sequences. The library returns an
  element as an object with its attributes grouped under the key \<open>':@'\<close> and one key
  per child tag, whose value is the child, or the array of the children when the tag is
  repeated. Here an element is its list of attributes and, per child tag, the list of
  the children of that tag in document order. Text content is not modelled (the parser
  reads none).

  An element with no attribute and no child is the empty string in the library's
  output, which JavaScript takes for false: \<open>getChild\<close> and \<open>getChildren\<close>
  (\<open>child || null\<close>, \<open>!child\<close>) treat such a child as missing.
\<close>

datatype XMLElement =
  XMLElement (attributes: "(string \<times> string) list") (elements: "(string \<times> XMLElement list) list")

definition isEmptyElement :: "XMLElement \<Rightarrow> bool" where
  "isEmptyElement e = (attributes e = [] \<and> elements e = [])"

text \<open>A thrown \<open>Error\<close> with its message. A function that can throw returns a sum,
  \<open>Inl\<close> the error; \<open>andThen\<close> is sequencing: the first error is the result.\<close>

datatype Error = Error string

definition andThen :: "Error + 'a \<Rightarrow> ('a \<Rightarrow> Error + 'b) \<Rightarrow> Error + 'b" where
  "andThen r f = (case r of Inl e \<Rightarrow> Inl e | Inr v \<Rightarrow> f v)"

text \<open>A \<open>for\<close> loop that pushes the result of \<open>f\<close> for each element, and stops at the
  first one that throws.\<close>

fun forEachPush :: "('a \<Rightarrow> Error + 'b) \<Rightarrow> 'a list \<Rightarrow> Error + 'b list" where
  "forEachPush f [] = Inr []"
| "forEachPush f (x # xs) =
     andThen (f x) (\<lambda>y. andThen (forEachPush f xs) (\<lambda>ys. Inr (y # ys)))"

text \<open>A \<open>for\<close> loop that parses each element and stores the result in a \<open>Map\<close> under
  its name (lines 577 to 595), stopping at the first element that throws.\<close>

fun forEachSet ::
  "('a \<Rightarrow> Error + 'b) \<Rightarrow> ('b \<Rightarrow> string) \<Rightarrow> 'a list \<Rightarrow> (string, 'b) JSMap \<Rightarrow> Error + (string, 'b) JSMap"
where
  "forEachSet f key [] m = Inr m"
| "forEachSet f key (x # xs) m =
     andThen (f x) (\<lambda>y. forEachSet f key xs (Map_set m (key y) y))"

subsection \<open>Strings\<close>

text \<open>
  A string is a list of code units below 256. \<open>isWhiteSpace\<close> is what \<open>\s\<close> and
  \<open>trim\<close> take for white space among them: tab, line feed, vertical tab, form feed,
  carriage return, space and the no-break space.
\<close>

definition isWhiteSpace :: "char \<Rightarrow> bool" where
  "isWhiteSpace c =
     (c = CHR 0x09 \<or> c = CHR 0x0A \<or> c = CHR 0x0B \<or> c = CHR 0x0C \<or> c = CHR 0x0D
      \<or> c = CHR 0x20 \<or> c = CHR 0xA0)"

definition trim :: "string \<Rightarrow> string" where
  "trim s = rev (dropWhile isWhiteSpace (rev (dropWhile isWhiteSpace s)))"

text \<open>
  \<open>s.split(/\s+/)\<close>: the pieces of \<open>s\<close> between the maximal runs of white space, an
  empty piece before a leading run and after a trailing one; the empty string gives
  one empty piece. The first argument of \<open>splitWhiteSpace\<close> is the piece being read,
  reversed; \<open>split_ws\<close> is the method call.
\<close>

function splitWhiteSpace :: "string \<Rightarrow> string \<Rightarrow> string list" where
  "splitWhiteSpace cur [] = [rev cur]"
| "splitWhiteSpace cur (c # cs) =
     (if isWhiteSpace c then rev cur # splitWhiteSpace [] (dropWhile isWhiteSpace cs)
      else splitWhiteSpace (c # cur) cs)"
  by pat_completeness auto
termination
  by (relation "measure (\<lambda>(cur, s). length s)")
     (auto simp: length_dropWhile_le less_Suc_eq_le)

definition split_ws :: "string \<Rightarrow> string list" where
  "split_ws s = splitWhiteSpace [] s"

definition startsWith :: "string \<Rightarrow> string \<Rightarrow> bool" where
  "startsWith s p = (take (length p) s = p)"

text \<open>
  \<open>filename.match(/^package:\/\/([^/]+)\/(.+)$/)\<close>: after \<open>package://\<close> a non-empty
  run of characters other than \<open>/\<close>, a \<open>/\<close>, and a non-empty rest up to the end of the
  string in which \<open>.\<close> matches no line terminator. The result is the two groups.
\<close>

definition isLineTerminator :: "char \<Rightarrow> bool" where
  "isLineTerminator c = (c = CHR 0x0A \<or> c = CHR 0x0D)"

definition matchPackageURI :: "string \<Rightarrow> (string \<times> string) option" where
  "matchPackageURI filename =
     (if startsWith filename ''package://'' then
        (let rest = drop 10 filename;
             packageName = takeWhile (\<lambda>c. c \<noteq> CHR ''/'') rest;
             tail = dropWhile (\<lambda>c. c \<noteq> CHR ''/'') rest
         in if packageName \<noteq> [] \<and> tail \<noteq> [] \<and> tl tail \<noteq> []
               \<and> \<not> list_ex isLineTerminator (tl tail)
            then Some (packageName, tl tail) else None)
      else None)"

subsection \<open>Helpers (lines 38 to 134)\<close>

text \<open>
  \<open>parseFloat\<close> is a parameter \<open>pf\<close> of every function that reads a number: the
  model covers the documents whose numbers it reads as finite values.
\<close>

definition parseVector3 :: "(string \<Rightarrow> real) \<Rightarrow> string \<Rightarrow> Error + Vector3" where
  "parseVector3 pf str =
     (let parts = split_ws (trim str)
      in if length parts \<noteq> 3 then Inl (Error (''Invalid vector3 format: '' @ str))
         else Inr (Vector3 (pf (parts ! 0)) (pf (parts ! 1)) (pf (parts ! 2))))"

definition parseRPY :: "(string \<Rightarrow> real) \<Rightarrow> string \<Rightarrow> Error + RPY" where
  "parseRPY pf str =
     (let parts = split_ws (trim str)
      in if length parts \<noteq> 3 then Inl (Error (''Invalid RPY format: '' @ str))
         else Inr \<lparr>rpy_r = pf (parts ! 0), rpy_p = pf (parts ! 1), rpy_y = pf (parts ! 2)\<rparr>)"

definition getAttributes :: "XMLElement \<Rightarrow> (string \<times> string) list" where
  "getAttributes element = attributes element"

text \<open>\<open>attrs[name] ?? defaultValue ?? ''\<close>.\<close>

definition getAttribute :: "XMLElement \<Rightarrow> string \<Rightarrow> string option \<Rightarrow> string" where
  "getAttribute element nm defaultValue =
     (case map_of (getAttributes element) nm of
        Some v \<Rightarrow> v
      | None \<Rightarrow> (case defaultValue of Some d \<Rightarrow> d | None \<Rightarrow> []))"

text \<open>\<open>attrs.key || fallback\<close>: the fallback also replaces an empty attribute.\<close>

definition attributeOr :: "XMLElement \<Rightarrow> string \<Rightarrow> string \<Rightarrow> string" where
  "attributeOr element nm fallback =
     (case map_of (getAttributes element) nm of
        Some v \<Rightarrow> if v = [] then fallback else v
      | None \<Rightarrow> fallback)"

definition getChild :: "XMLElement \<Rightarrow> string \<Rightarrow> XMLElement option" where
  "getChild element nm =
     (case map_of (elements element) nm of
        None \<Rightarrow> None
      | Some [] \<Rightarrow> None
      | Some (c # cs) \<Rightarrow> if isEmptyElement c then None else Some c)"

definition getChildren :: "XMLElement \<Rightarrow> string \<Rightarrow> XMLElement list" where
  "getChildren element nm =
     (case map_of (elements element) nm of
        None \<Rightarrow> []
      | Some [] \<Rightarrow> []
      | Some [c] \<Rightarrow> if isEmptyElement c then [] else [c]
      | Some cs \<Rightarrow> cs)"

definition parseOrigin :: "(string \<Rightarrow> real) \<Rightarrow> XMLElement \<Rightarrow> Error + Pose" where
  "parseOrigin pf element =
     (let xyzStr = attributeOr element ''xyz'' ''0 0 0'';
          rpyStr = attributeOr element ''rpy'' ''0 0 0''
      in andThen (parseVector3 pf xyzStr) (\<lambda>v.
         andThen (parseRPY pf rpyStr) (\<lambda>a.
         Inr \<lparr>xyz = v, rpy = a\<rparr>)))"

text \<open>\<open>originEl ? parseOrigin(originEl) : { xyz: new Vector3(0, 0, 0), rpy: ... }\<close>, as
  lines 256, 299, 333, 385 and 501 have it.\<close>

definition originOrZero :: "(string \<Rightarrow> real) \<Rightarrow> XMLElement option \<Rightarrow> Error + Pose" where
  "originOrZero pf originEl =
     (case originEl of Some e \<Rightarrow> parseOrigin pf e | None \<Rightarrow> Inr zeroPose)"

definition parseColor :: "(string \<Rightarrow> real) \<Rightarrow> XMLElement \<Rightarrow> Error + Color" where
  "parseColor pf element =
     (let rgbaStr = attributeOr element ''rgba'' ''0 0 0 1'';
          parts = split_ws (trim rgbaStr)
      in if length parts \<noteq> 4 then Inl (Error (''Invalid color format: '' @ rgbaStr))
         else Inr \<lparr>col_r = pf (parts ! 0), col_g = pf (parts ! 1),
                   col_b = pf (parts ! 2), col_a = pf (parts ! 3)\<rparr>)"

subsection \<open>Materials and geometry\<close>

definition parseMaterial :: "(string \<Rightarrow> real) \<Rightarrow> XMLElement \<Rightarrow> Error + Material" where
  "parseMaterial pf element =
     (let nm = getAttribute element ''name'' None
      in if nm = [] then Inl (Error ''Material element missing name attribute'')
         else
           (let colorEl = getChild element ''color'';
                textureEl = getChild element ''texture'';
                material = \<lparr>mat_name = nm, color = None, texture = None\<rparr>
            in andThen (case colorEl of
                          Some c \<Rightarrow> andThen (parseColor pf c) (\<lambda>col. Inr (material\<lparr>color := Some col\<rparr>))
                        | None \<Rightarrow> Inr material) (\<lambda>material.
               Inr (case textureEl of
                      Some t \<Rightarrow>
                        (let filename = getAttribute t ''filename'' None
                         in if filename \<noteq> [] then material\<lparr>texture := Some filename\<rparr>
                            else material)
                    | None \<Rightarrow> material))))"

text \<open>
  \<open>obj[key]\<close> where the code tests it for truth and then writes it into a template
  literal (lines 208 and 209): an own property that is not the empty string, or, when
  the object has no own property of that name, the text of the inherited member.
\<close>

definition truthyProperty :: "StringRecord \<Rightarrow> string \<Rightarrow> string option" where
  "truthyProperty obj key =
     (case map_of (ownProperties obj) key of
        Some v \<Rightarrow> if v \<noteq> [] then Some v else None
      | None \<Rightarrow> inheritedText obj key)"

text \<open>
  Lines 201 to 220 of \<open>parseGeometry\<close>: the mesh's file name, resolved.
  \<open>options.packageMap && options.packageMap[packageName]\<close> is false for a missing map
  and for a name under which the map has nothing true;
  \<open>filename && ... && options.workingPath\<close> is false for an empty file name and for a
  missing or empty working path.
\<close>

definition resolveMeshFilename :: "ParseURDFOptions \<Rightarrow> string \<Rightarrow> string" where
  "resolveMeshFilename options filename0 =
     (let filename1 =
            (if startsWith filename0 ''package://'' then
               (case matchPackageURI filename0 of
                  Some (packageName, path) \<Rightarrow>
                    (case packageMap options of
                       Some obj \<Rightarrow>
                         (case truthyProperty obj packageName of
                            Some prefix \<Rightarrow> prefix @ ''/'' @ path
                          | None \<Rightarrow> filename0)
                     | None \<Rightarrow> filename0)
                | None \<Rightarrow> filename0)
             else filename0)
      in case workingPath options of
           Some wp \<Rightarrow>
             if filename1 \<noteq> [] \<and> \<not> startsWith filename1 ''package://''
                \<and> \<not> startsWith filename1 ''/'' \<and> wp \<noteq> []
             then wp @ ''/'' @ filename1
             else filename1
         | None \<Rightarrow> filename1)"

definition parseGeometry :: "(string \<Rightarrow> real) \<Rightarrow> ParseURDFOptions \<Rightarrow> XMLElement \<Rightarrow> Error + Geometry" where
  "parseGeometry pf options element =
     (let boxEl = getChild element ''box'';
          cylinderEl = getChild element ''cylinder'';
          sphereEl = getChild element ''sphere'';
          meshEl = getChild element ''mesh'';
          capsuleEl = getChild element ''capsule''
      in case boxEl of
           Some b \<Rightarrow>
             andThen (parseVector3 pf (getAttribute b ''size'' (Some ''1 1 1''))) (\<lambda>size.
             Inr (BoxGeometry size))
         | None \<Rightarrow>
        (case cylinderEl of
           Some c \<Rightarrow>
             Inr (CylinderGeometry (pf (getAttribute c ''radius'' (Some ''0.5'')))
                                   (pf (getAttribute c ''length'' (Some ''1''))))
         | None \<Rightarrow>
        (case sphereEl of
           Some s \<Rightarrow> Inr (SphereGeometry (pf (getAttribute s ''radius'' (Some ''0.5''))))
         | None \<Rightarrow>
        (case meshEl of
           Some m \<Rightarrow>
             (let filename = resolveMeshFilename options (getAttribute m ''filename'' (Some []));
                  scaleStr = getAttribute m ''scale'' None
              in if scaleStr \<noteq> [] then
                   andThen (parseVector3 pf scaleStr) (\<lambda>scale.
                   Inr (MeshGeometry filename (Some scale)))
                 else Inr (MeshGeometry filename None))
         | None \<Rightarrow>
        (case capsuleEl of
           Some c \<Rightarrow>
             Inr (CapsuleGeometry (pf (getAttribute c ''radius'' (Some ''0.5'')))
                                  (pf (getAttribute c ''length'' (Some ''1''))))
         | None \<Rightarrow> Inl (Error ''Unknown geometry type''))))))"

subsection \<open>Links\<close>

definition parseInertial :: "(string \<Rightarrow> real) \<Rightarrow> XMLElement \<Rightarrow> Error + Inertial" where
  "parseInertial pf element =
     (let originEl = getChild element ''origin'';
          massEl = getChild element ''mass'';
          inertiaEl = getChild element ''inertia''
      in andThen (originOrZero pf originEl) (\<lambda>origin.
         Inr \<lparr>i_origin = origin,
              mass = (case massEl of
                        Some m \<Rightarrow> pf (getAttribute m ''value'' (Some ''0''))
                      | None \<Rightarrow> 0),
              inertia = (case inertiaEl of
                           Some i \<Rightarrow>
                             \<lparr>ixx = pf (getAttribute i ''ixx'' (Some ''0'')),
                              ixy = pf (getAttribute i ''ixy'' (Some ''0'')),
                              ixz = pf (getAttribute i ''ixz'' (Some ''0'')),
                              iyy = pf (getAttribute i ''iyy'' (Some ''0'')),
                              iyz = pf (getAttribute i ''iyz'' (Some ''0'')),
                              izz = pf (getAttribute i ''izz'' (Some ''0''))\<rparr>
                         | None \<Rightarrow>
                             \<lparr>ixx = 0, ixy = 0, ixz = 0, iyy = 0, iyz = 0, izz = 0\<rparr>)\<rparr>))"

definition parseVisual :: "(string \<Rightarrow> real) \<Rightarrow> ParseURDFOptions \<Rightarrow> XMLElement \<Rightarrow> Error + Visual" where
  "parseVisual pf options element =
     (let nm = getAttribute element ''name'' None;
          originEl = getChild element ''origin'';
          geometryEl = getChild element ''geometry'';
          materialEl = getChild element ''material''
      in case geometryEl of
           None \<Rightarrow> Inl (Error ''Visual element missing geometry'')
         | Some g \<Rightarrow>
             andThen (originOrZero pf originEl) (\<lambda>origin.
             andThen (parseGeometry pf options g) (\<lambda>geometry.
             Inr \<lparr>v_name = (if nm \<noteq> [] then Some nm else None),
                  v_origin = origin,
                  v_geometry = geometry,
                  v_material =
                    (case materialEl of
                       Some m \<Rightarrow>
                         (let materialName = getAttribute m ''name'' None
                          in if materialName \<noteq> [] then Some materialName else None)
                     | None \<Rightarrow> None)\<rparr>)))"

definition parseCollision :: "(string \<Rightarrow> real) \<Rightarrow> ParseURDFOptions \<Rightarrow> XMLElement \<Rightarrow> Error + Collision" where
  "parseCollision pf options element =
     (let nm = getAttribute element ''name'' None;
          originEl = getChild element ''origin'';
          geometryEl = getChild element ''geometry''
      in case geometryEl of
           None \<Rightarrow> Inl (Error ''Collision element missing geometry'')
         | Some g \<Rightarrow>
             andThen (originOrZero pf originEl) (\<lambda>origin.
             andThen (parseGeometry pf options g) (\<lambda>geometry.
             Inr \<lparr>c_name = (if nm \<noteq> [] then Some nm else None),
                  c_origin = origin,
                  c_geometry = geometry\<rparr>)))"

text \<open>Lines 379 to 389: the non-standard \<open>self_collision_checking\<close> element.\<close>

definition parseSelfCollision ::
  "(string \<Rightarrow> real) \<Rightarrow> ParseURDFOptions \<Rightarrow> XMLElement option \<Rightarrow> Error + SelfCollision option" where
  "parseSelfCollision pf options selfCollisionEl =
     (case selfCollisionEl of
        None \<Rightarrow> Inr None
      | Some s \<Rightarrow>
          (let originEl = getChild s ''origin'';
               geometryEl = getChild s ''geometry''
           in case geometryEl of
                None \<Rightarrow> Inr None
              | Some g \<Rightarrow>
                  andThen (originOrZero pf originEl) (\<lambda>origin.
                  andThen (parseGeometry pf options g) (\<lambda>geometry.
                  Inr (Some \<lparr>sc_origin = origin, sc_geometry = geometry\<rparr>)))))"

definition parseLink :: "(string \<Rightarrow> real) \<Rightarrow> ParseURDFOptions \<Rightarrow> XMLElement \<Rightarrow> Error + Link" where
  "parseLink pf options element =
     (let nm = getAttribute element ''name'' None
      in if nm = [] then Inl (Error ''Link element missing name attribute'')
         else
           andThen (case getChild element ''inertial'' of
                      Some i \<Rightarrow> andThen (parseInertial pf i) (\<lambda>x. Inr (Some x))
                    | None \<Rightarrow> Inr None) (\<lambda>inertialV.
           andThen (forEachPush (parseVisual pf options) (getChildren element ''visual'')) (\<lambda>vs.
           andThen (forEachPush (parseCollision pf options) (getChildren element ''collision'')) (\<lambda>cs.
           andThen (parseSelfCollision pf options (getChild element ''self_collision_checking'')) (\<lambda>sc.
           Inr \<lparr>l_name = nm, inertial = inertialV, visuals = vs, collisions = cs,
                selfCollision = sc\<rparr>)))))"

subsection \<open>Joints\<close>

text \<open>\<open>attrs.key !== undefined ? parseFloat(attrs.key) : undefined\<close>.\<close>

definition numberAttribute :: "(string \<Rightarrow> real) \<Rightarrow> XMLElement \<Rightarrow> string \<Rightarrow> real option" where
  "numberAttribute pf element nm = map_option pf (map_of (getAttributes element) nm)"

definition parseJointLimits :: "(string \<Rightarrow> real) \<Rightarrow> XMLElement \<Rightarrow> JointLimits" where
  "parseJointLimits pf element =
     \<lparr>lower = numberAttribute pf element ''lower'',
      upper = numberAttribute pf element ''upper'',
      effort = numberAttribute pf element ''effort'',
      velocity = numberAttribute pf element ''velocity''\<rparr>"

definition parseSafetyController :: "(string \<Rightarrow> real) \<Rightarrow> XMLElement \<Rightarrow> SafetyController" where
  "parseSafetyController pf element =
     \<lparr>softLowerLimit = numberAttribute pf element ''soft_lower_limit'',
      softUpperLimit = numberAttribute pf element ''soft_upper_limit'',
      kPosition = numberAttribute pf element ''k_position'',
      kVelocity = numberAttribute pf element ''k_velocity''\<rparr>"

definition parseJointDynamics :: "(string \<Rightarrow> real) \<Rightarrow> XMLElement \<Rightarrow> JointDynamics" where
  "parseJointDynamics pf element =
     \<lparr>damping = numberAttribute pf element ''damping'',
      friction = numberAttribute pf element ''friction''\<rparr>"

definition parseJointAxis :: "(string \<Rightarrow> real) \<Rightarrow> XMLElement \<Rightarrow> Error + JointAxis" where
  "parseJointAxis pf element =
     andThen (parseVector3 pf (getAttribute element ''xyz'' (Some ''0 0 1''))) (\<lambda>v.
     Inr \<lparr>axis_xyz = v\<rparr>)"

definition parseMimic :: "(string \<Rightarrow> real) \<Rightarrow> XMLElement \<Rightarrow> JointMimic" where
  "parseMimic pf mimicEl =
     (let jointName = getAttribute mimicEl ''joint'' None;
          multiplierStr = getAttribute mimicEl ''multiplier'' None;
          offsetStr = getAttribute mimicEl ''offset'' None
      in \<lparr>mimic_joint = jointName,
          multiplier = (if multiplierStr \<noteq> [] then Some (pf multiplierStr) else None),
          offset = (if offsetStr \<noteq> [] then Some (pf offsetStr) else None)\<rparr>)"

definition parseJoint :: "(string \<Rightarrow> real) \<Rightarrow> ParseURDFOptions \<Rightarrow> XMLElement \<Rightarrow> Error + Joint" where
  "parseJoint pf options element =
     (let nm = getAttribute element ''name'' None
      in if nm = [] then Inl (Error ''Joint element missing name attribute'')
         else
      (let ty = getAttribute element ''type'' None
       in if ty = [] then Inl (Error ''Joint element missing type attribute'')
          else
      (case (getChild element ''parent'', getChild element ''child'') of
         (Some parentEl, Some childEl) \<Rightarrow>
           (let parent = getAttribute parentEl ''link'' None;
                child = getAttribute childEl ''link'' None
            in if parent = [] \<or> child = []
               then Inl (Error ''Joint parent or child missing link attribute'')
               else
                 andThen (originOrZero pf (getChild element ''origin'')) (\<lambda>origin.
                 andThen (case getChild element ''axis'' of
                            Some a \<Rightarrow> andThen (parseJointAxis pf a) (\<lambda>x. Inr (Some x))
                          | None \<Rightarrow> Inr None) (\<lambda>axisV.
                 Inr \<lparr>j_name = nm, j_type = ty, j_parent = parent, j_child = child,
                      j_origin = origin,
                      j_axis = axisV,
                      j_limits = map_option (parseJointLimits pf) (getChild element ''limit''),
                      j_safetyController =
                        map_option (parseSafetyController pf) (getChild element ''safety_controller''),
                      j_dynamics = map_option (parseJointDynamics pf) (getChild element ''dynamics''),
                      j_mimic = map_option (parseMimic pf) (getChild element ''mimic'')\<rparr>)))
       | _ \<Rightarrow> Inl (Error ''Joint missing parent or child link''))))"

subsection \<open>\<open>parseURDF\<close>\<close>

text \<open>Lines 598 to 601: the \<open>Set\<close> of the joints' child links, in insertion order.\<close>

definition Set_add :: "'a list \<Rightarrow> 'a \<Rightarrow> 'a list" where
  "Set_add s x = (if x \<in> set s then s else s @ [x])"

definition childLinksOf :: "(string, Joint) JSMap \<Rightarrow> string list" where
  "childLinksOf js = foldl (\<lambda>s joint. Set_add s (j_child joint)) [] (Map_values js)"

text \<open>Lines 603 to 608: the loop over the link names, left at the first name that
  is not in the set.\<close>

fun findRootLink :: "string list \<Rightarrow> string list \<Rightarrow> string option" where
  "findRootLink childLinks [] = None"
| "findRootLink childLinks (linkName # rest) =
     (if linkName \<notin> set childLinks then Some linkName else findRootLink childLinks rest)"

text \<open>Lines 567 to 610 of \<open>parseURDF\<close>, for the value of \<open>robotEl\<close>.\<close>

definition parseRobot :: "(string \<Rightarrow> real) \<Rightarrow> ParseURDFOptions \<Rightarrow> XMLElement \<Rightarrow> Error + RobotModel" where
  "parseRobot pf options robotEl =
     (let robotName = (if getAttribute robotEl ''name'' None \<noteq> []
                       then getAttribute robotEl ''name'' None else ''robot'')
      in andThen (forEachSet (parseMaterial pf) mat_name (getChildren robotEl ''material'') [])
           (\<lambda>ms.
         andThen (forEachSet (parseLink pf options) l_name (getChildren robotEl ''link'') [])
           (\<lambda>ls.
         andThen (forEachSet (parseJoint pf options) j_name (getChildren robotEl ''joint'') [])
           (\<lambda>js.
         Inr \<lparr>m_name = robotName, materials = ms, links = ls, joints = js,
              rootLink = findRootLink (childLinksOf js) (Map_keys ls)\<rparr>))))"

text \<open>
  \<open>parseURDF\<close> (lines 549 to 611), from the output of \<open>parser.parse(urdfString)\<close>: the
  object whose key \<open>robot\<close> holds the root element. Line 562 reads \<open>parsed.robot\<close> as it
  is. A missing key and a root element without attribute and child (the empty string)
  are false, and the function throws. A repeated root tag makes the value an array,
  which is true and has none of the keys that the rest of the function reads: it is
  read as an element without attributes and children.
\<close>

definition parseURDF :: "(string \<Rightarrow> real) \<Rightarrow> ParseURDFOptions \<Rightarrow> XMLElement \<Rightarrow> Error + RobotModel" where
  "parseURDF pf options parsed =
     (case map_of (elements parsed) ''robot'' of
        None \<Rightarrow> Inl (Error ''URDF document missing <robot> root element'')
      | Some [robotEl] \<Rightarrow>
          if isEmptyElement robotEl
          then Inl (Error ''URDF document missing <robot> root element'')
          else parseRobot pf options robotEl
      | Some several \<Rightarrow> parseRobot pf options (XMLElement [] []))"

section \<open>The builder (\<open>builder.ts\<close>)\<close>

record BuildRobotOptions =
  jointRadius :: "real option"
  jointColor :: "nat option"
  linkColor :: "nat option"
  convertToYUp :: "bool option"
  showDebug :: "bool option"

subsection \<open>Scene objects\<close>

text \<open>
  An \<open>Object3D\<close> has a name, a local position, a local orientation and children.
  \<open>kind\<close> records which constructor made the object and what it was given (a debug
  sphere its radius and colour, a debug line its end point and colour).
\<close>

datatype ObjectKind =
    Group
  | Object3D
  | Mesh real nat
  | LineSegments Vector3 nat

record Object3D =
  name :: string
  kind :: ObjectKind
  position :: Vector3
  quaternion :: Quaternion
  children :: "nat list"

text \<open>\<open>interface URDFJoint extends Object3D\<close> (line 43).\<close>

record URDFJoint = Object3D +
  jointType :: string
  axis :: Vector3
  jointName :: string
  limits :: "JointLimits option"
  jointValue :: real

definition newObject3D :: "ObjectKind \<Rightarrow> Object3D" where
  "newObject3D k =
     \<lparr>name = [], kind = k, position = Vector3 0 0 0,
      quaternion = Quaternion 0 0 0 1, children = []\<rparr>"

text \<open>\<open>rpyToEuler\<close> (line 69).\<close>

definition rpyToEuler :: "RPY \<Rightarrow> Euler" where
  "rpyToEuler a = Euler (rpy_r a) (rpy_p a) (rpy_y a) ZYX"

subsection \<open>\<open>setJointValue\<close>\<close>

text \<open>
  Lines 204 to 211: the requested value is moved to the lower limit when it is below
  it, and then to the upper limit when it is above that. The test is on
  \<open>jointData.limits\<close> alone, whatever the joint's type.
\<close>

definition clampToLimits :: "JointLimits option \<Rightarrow> real \<Rightarrow> real" where
  "clampToLimits lims v =
     (case lims of
        None \<Rightarrow> v
      | Some l \<Rightarrow>
          (let v1 = (case lower l of
                       None \<Rightarrow> v
                     | Some lo \<Rightarrow> if v < lo then lo else v)
           in case upper l of
                None \<Rightarrow> v1
              | Some up \<Rightarrow> if v1 > up then up else v1))"

text \<open>
  Lines 203 to 229. The closure captures \<open>jointData\<close>, \<open>originQuaternion\<close> and
  the joint object itself; here they are arguments, and the updated joint object is
  returned. The axis is read from the object's own (public) field at the time of the
  call.
\<close>

definition setJointValue :: "Joint \<Rightarrow> Quaternion \<Rightarrow> URDFJoint \<Rightarrow> real \<Rightarrow> URDFJoint" where
  "setJointValue jointData originQuaternion jointObject v =
     (let val = clampToLimits (j_limits jointData) v;
          jo = jointObject\<lparr>jointValue := val\<rparr>;
          ax = axis jo
      in if j_type jointData = ''revolute'' \<or> j_type jointData = ''continuous'' then
           jo\<lparr>quaternion := multiply originQuaternion (setFromAxisAngle ax val)\<rparr>
         else if j_type jointData = ''prismatic'' then
           jo\<lparr>position := addScaledVector (xyz (j_origin jointData)) ax val\<rparr>
         else jo)"

text \<open>Line 194: the origin quaternion that the closure of a joint captures.\<close>

definition originQuaternionOf :: "Joint \<Rightarrow> Quaternion" where
  "originQuaternionOf jointData = setFromEuler (rpyToEuler (rpy (j_origin jointData)))"

text \<open>Lines 183 to 195: the joint object as \<open>buildLink\<close> creates it.\<close>

definition newJointObject :: "Joint \<Rightarrow> URDFJoint" where
  "newJointObject jointData =
     \<lparr>name = ''joint_'' @ j_name jointData,
      kind = Object3D,
      position = xyz (j_origin jointData),
      quaternion = originQuaternionOf jointData,
      children = [],
      jointType = j_type jointData,
      axis = (case j_axis jointData of
                Some a \<Rightarrow> normalize (axis_xyz a)
              | None \<Rightarrow> Vector3 0 0 1),
      jointName = j_name jointData,
      limits = j_limits jointData,
      jointValue = 0\<rparr>"

subsection \<open>The scene graph as a store\<close>

text \<open>
  Objects are mutable and shared by reference, so the tree is a store: a list of
  objects, the identity of an object being its index, with \<open>children\<close> holding
  identities. A joint object is stored with what its \<open>setJointValue\<close> closure
  captured. The robot itself (a \<open>Group\<close>) is object \<open>0\<close>.
\<close>

datatype SceneObject =
    PlainObject Object3D
  | JointObject URDFJoint Joint Quaternion

record URDFRobot =
  objects :: "SceneObject list"
  robot_joints :: "(string, nat) JSMap"
  robot_links :: "(string, nat) JSMap"

text \<open>\<open>parent.add(child)\<close> for a child that has no parent yet: the child's identity
  is pushed on the parent's \<open>children\<close>.\<close>

definition pushChild :: "nat \<Rightarrow> SceneObject \<Rightarrow> SceneObject" where
  "pushChild c ob =
     (case ob of
        PlainObject p \<Rightarrow> PlainObject (p\<lparr>children := children p @ [c]\<rparr>)
      | JointObject j jd oq \<Rightarrow> JointObject (j\<lparr>children := children j @ [c]\<rparr>) jd oq)"

definition add :: "nat \<Rightarrow> nat \<Rightarrow> SceneObject list \<Rightarrow> SceneObject list" where
  "add parent c obs =
     (if parent < length obs then obs[parent := pushChild c (obs ! parent)] else obs)"

text \<open>\<open>new X()\<close> followed by the first assignments: the object is appended to the
  store, and its identity is the store's former length.\<close>

definition alloc :: "SceneObject \<Rightarrow> URDFRobot \<Rightarrow> nat \<times> URDFRobot" where
  "alloc ob robot = (length (objects robot), robot\<lparr>objects := objects robot @ [ob]\<rparr>)"

text \<open>Lines 158 to 163: the joints indexed by their parent link.\<close>

definition indexJoint :: "(string, Joint list) JSMap \<Rightarrow> Joint \<Rightarrow> (string, Joint list) JSMap" where
  "indexJoint m joint =
     (let list = (case Map_get m (j_parent joint) of Some l \<Rightarrow> l | None \<Rightarrow> [])
      in Map_set m (j_parent joint) (list @ [joint]))"

definition jointsByParent :: "RobotModel \<Rightarrow> (string, Joint list) JSMap" where
  "jointsByParent model = foldl indexJoint [] (Map_values (joints model))"

text \<open>What \<open>buildLink\<close> reads from the enclosing call of
  \<open>buildRobotStructure\<close>: the model, the index, and the options after their
  defaults.\<close>

record BuildEnv =
  env_model :: RobotModel
  env_jointsByParent :: "(string, Joint list) JSMap"
  env_jointRadius :: real
  env_jointColor :: nat
  env_linkColor :: nat
  env_showDebug :: bool

text \<open>
  \<open>buildLink\<close> (lines 165 to 236). The function calls itself once per joint of the
  link, and nothing in it bounds the depth of these calls, so the model carries fuel:
  the depth of calls that the stack allows. \<open>None\<close> is the call that does not return
  (the stack is exhausted). \<open>buildJoints\<close> is the \<open>for\<close> loop of lines 182 to 235.
\<close>

fun buildLink :: "nat \<Rightarrow> BuildEnv \<Rightarrow> string \<Rightarrow> nat \<Rightarrow> URDFRobot \<Rightarrow> URDFRobot option"
  and buildJoints :: "nat \<Rightarrow> BuildEnv \<Rightarrow> Joint list \<Rightarrow> nat \<Rightarrow> URDFRobot \<Rightarrow> URDFRobot option"
where
  "buildLink 0 env linkName parentObject robot = None"
| "buildLink (Suc fuel) env linkName parentObject robot =
     (case Map_get (links (env_model env)) linkName of
        None \<Rightarrow> Some robot
      | Some link \<Rightarrow>
          (let (linkGroup, r1) =
                 alloc (PlainObject ((newObject3D Group)\<lparr>name := ''link_'' @ linkName\<rparr>)) robot;
               r2 = r1\<lparr>objects := add parentObject linkGroup (objects r1)\<rparr>;
               r3 = r2\<lparr>robot_links := Map_set (robot_links r2) linkName linkGroup\<rparr>;
               r4 = (if env_showDebug env then
                       (let (sphere, s1) =
                              alloc (PlainObject
                                ((newObject3D (Mesh (env_jointRadius env) (env_jointColor env)))
                                   \<lparr>name := ''debug_sphere_'' @ linkName\<rparr>)) r3
                        in s1\<lparr>objects := add linkGroup sphere (objects s1)\<rparr>)
                     else r3);
               childJoints = (case Map_get (env_jointsByParent env) linkName of
                                Some l \<Rightarrow> l | None \<Rightarrow> [])
           in buildJoints fuel env childJoints linkGroup r4))"
| "buildJoints fuel env [] linkGroup robot = Some robot"
| "buildJoints fuel env (jointData # rest) linkGroup robot =
     (let (jointObject, r1) =
            alloc (JointObject (newJointObject jointData) jointData
                     (originQuaternionOf jointData)) robot;
          r2 = (if env_showDebug env then
                  (let (line, s1) =
                         alloc (PlainObject
                           ((newObject3D (LineSegments (xyz (j_origin jointData)) (env_linkColor env)))
                              \<lparr>name := ''debug_line_'' @ j_name jointData\<rparr>)) r1
                   in s1\<lparr>objects := add linkGroup line (objects s1)\<rparr>)
                else r1);
          r3 = r2\<lparr>objects := add linkGroup jointObject (objects r2)\<rparr>;
          r4 = r3\<lparr>robot_joints := Map_set (robot_joints r3) (j_name jointData) jointObject\<rparr>
      in case buildLink fuel env (j_child jointData) jointObject r4 of
           None \<Rightarrow> None
         | Some r5 \<Rightarrow> buildJoints fuel env rest linkGroup r5)"

text \<open>
  \<open>buildRobotStructure\<close> (lines 128 to 243). \<open>robot.rotation.x = -Math.PI / 2\<close>
  sets the robot's quaternion from its Euler angles, whose order is the default
  \<open>'XYZ'\<close>. \<open>if (model.rootLink)\<close> is false for a missing and for an empty name.
\<close>

definition buildRobotStructure :: "nat \<Rightarrow> RobotModel \<Rightarrow> BuildRobotOptions \<Rightarrow> URDFRobot option" where
  "buildRobotStructure fuel model options =
     (let env = \<lparr>env_model = model,
                 env_jointsByParent = jointsByParent model,
                 env_jointRadius = (case jointRadius options of Some v \<Rightarrow> v | None \<Rightarrow> 0.02),
                 env_jointColor = (case jointColor options of Some v \<Rightarrow> v | None \<Rightarrow> 0xff0000),
                 env_linkColor = (case linkColor options of Some v \<Rightarrow> v | None \<Rightarrow> 0x00ff00),
                 env_showDebug = (case showDebug options of Some v \<Rightarrow> v | None \<Rightarrow> True)\<rparr>;
          group = (newObject3D Group)\<lparr>name := m_name model\<rparr>;
          group' = (if (case convertToYUp options of Some v \<Rightarrow> v | None \<Rightarrow> True)
                    then group\<lparr>quaternion := setFromEuler (Euler (- pi / 2) 0 0 XYZ)\<rparr>
                    else group);
          robot = \<lparr>objects = [PlainObject group'], robot_joints = [], robot_links = []\<rparr>
      in case rootLink model of
           None \<Rightarrow> Some robot
         | Some rootName \<Rightarrow>
             if rootName = [] then Some robot else buildLink fuel env rootName 0 robot)"

text \<open>\<open>buildRobot\<close> (line 248).\<close>

definition buildRobot :: "nat \<Rightarrow> RobotModel \<Rightarrow> BuildRobotOptions \<Rightarrow> URDFRobot option" where
  "buildRobot fuel model options = buildRobotStructure fuel model (options\<lparr>showDebug := Some True\<rparr>)"

text \<open>
  A call \<open>joint.setJointValue(value)\<close> on the object with identity \<open>i\<close>, and
  \<open>robot.setJointValues(values)\<close> (lines 149 to 156), which forwards each entry
  whose name is a key of \<open>robot.joints\<close>.
\<close>

definition callSetJointValue :: "nat \<Rightarrow> real \<Rightarrow> URDFRobot \<Rightarrow> URDFRobot" where
  "callSetJointValue i v robot =
     (if i < length (objects robot) then
        (case objects robot ! i of
           JointObject j jd oq \<Rightarrow>
             robot\<lparr>objects := (objects robot)[i := JointObject (setJointValue jd oq j v) jd oq]\<rparr>
         | PlainObject p \<Rightarrow> robot)
      else robot)"

fun setJointValues :: "(string \<times> real) list \<Rightarrow> URDFRobot \<Rightarrow> URDFRobot" where
  "setJointValues [] robot = robot"
| "setJointValues ((nm, v) # rest) robot =
     (case Map_get (robot_joints robot) nm of
        Some joint \<Rightarrow> setJointValues rest (callSetJointValue joint v robot)
      | None \<Rightarrow> setJointValues rest robot)"

section \<open>Notions of the specification\<close>

text \<open>
  The specification's "value clamped to the declared limits": the value raised to the
  lower limit when there is one, then lowered to the upper limit when there is one.
\<close>

definition clampedValue :: "real option \<Rightarrow> real option \<Rightarrow> real \<Rightarrow> real" where
  "clampedValue lo up v =
     (let v1 = (case lo of None \<Rightarrow> v | Some l \<Rightarrow> max l v)
      in case up of None \<Rightarrow> v1 | Some u \<Rightarrow> min u v1)"

section \<open>Concrete inputs\<close>

text \<open>A joint \<open>nm\<close> of type \<open>ty\<close> from link \<open>pa\<close> to link \<open>ch\<close>, with the zero
  origin, no axis element and the given limits.\<close>

definition jointOf :: "string \<Rightarrow> string \<Rightarrow> string \<Rightarrow> string \<Rightarrow> JointLimits option \<Rightarrow> Joint" where
  "jointOf nm ty pa ch lims =
     \<lparr>j_name = nm, j_type = ty, j_parent = pa, j_child = ch, j_origin = zeroPose,
      j_axis = None, j_limits = lims, j_safetyController = None, j_dynamics = None,
      j_mimic = None\<rparr>"

text \<open>The limits of \<open><limit lower="-1" upper="1"/>\<close>.\<close>

definition unitLimits :: JointLimits where
  "unitLimits = \<lparr>lower = Some (- 1), upper = Some 1, effort = None, velocity = None\<rparr>"

text \<open>A link with a name and nothing else, and a model of given links and joints whose
  root link is \<open>rt\<close>.\<close>

definition linkOf :: "string \<Rightarrow> Link" where
  "linkOf nm = \<lparr>l_name = nm, inertial = None, visuals = [], collisions = [], selfCollision = None\<rparr>"

definition modelOf :: "Link list \<Rightarrow> Joint list \<Rightarrow> string option \<Rightarrow> RobotModel" where
  "modelOf ls js rt =
     \<lparr>m_name = ''r'', materials = [],
      links = map (\<lambda>l. (l_name l, l)) ls,
      joints = map (\<lambda>j. (j_name j, j)) js,
      rootLink = rt\<rparr>"

text \<open>Two joints from \<open>base\<close> to the same child \<open>a\<close>: the link \<open>a\<close> is reachable by
  two paths.\<close>

definition twoPathModel :: RobotModel where
  "twoPathModel =
     modelOf [linkOf ''base'', linkOf ''a'']
       [jointOf ''j1'' ''fixed'' ''base'' ''a'' None, jointOf ''j2'' ''fixed'' ''base'' ''a'' None]
       (Some ''base'')"

text \<open>A joint from \<open>a\<close> to \<open>a\<close> itself below the root \<open>base\<close>.\<close>

definition loopModel :: RobotModel where
  "loopModel =
     modelOf [linkOf ''base'', linkOf ''a'']
       [jointOf ''j1'' ''fixed'' ''base'' ''a'' None, jointOf ''j2'' ''fixed'' ''a'' ''a'' None]
       (Some ''base'')"

definition plainOptions :: BuildRobotOptions where
  "plainOptions =
     \<lparr>jointRadius = None, jointColor = None, linkColor = None,
      convertToYUp = Some False, showDebug = Some False\<rparr>"

text \<open>The name of a stored object.\<close>

definition objectName :: "SceneObject \<Rightarrow> string" where
  "objectName ob = (case ob of PlainObject p \<Rightarrow> name p | JointObject j jd oq \<Rightarrow> name j)"

section \<open>Malformed elements\<close>









section \<open>Concrete documents\<close>

text \<open>
  The documents below contain no numeric text but \<open>0\<close>, which \<open>parseFloat\<close> reads as
  \<open>0\<close>; \<open>parseFloat0\<close> stands for \<open>parseFloat\<close> on them.
\<close>

definition parseFloat0 :: "string \<Rightarrow> real" where
  "parseFloat0 s = 0"

definition noOptions :: ParseURDFOptions where
  "noOptions =
     \<lparr>packageMap = None, workingPath = None, ignoreGazebo = None, ignoreTransmission = None\<rparr>"

text \<open>An element with attributes only, and the document that has the given children
  under \<open><robot name="r">\<close>.\<close>

definition leaf :: "(string \<times> string) list \<Rightarrow> XMLElement" where
  "leaf attrs = XMLElement attrs []"

definition documentOf :: "(string \<times> XMLElement list) list \<Rightarrow> XMLElement" where
  "documentOf children0 = XMLElement [] [(''robot'', [XMLElement [(''name'', ''r'')] children0])]"





text \<open>One link \<open>a\<close> and one fixed joint \<open>j\<close> from \<open>a\<close> to \<open>a\<close>: every link is a
  joint's child.\<close>

definition selfLoopDocument :: XMLElement where
  "selfLoopDocument =
     documentOf
       [(''link'', [leaf [(''name'', ''a'')]]),
        (''joint'',
          [XMLElement [(''name'', ''j''), (''type'', ''fixed'')]
             [(''parent'', [leaf [(''link'', ''a'')]]),
              (''child'', [leaf [(''link'', ''a'')]])]])]"

definition selfLoopModel :: RobotModel where
  "selfLoopModel =
     \<lparr>m_name = ''r'', materials = [],
      links = [(''a'', linkOf ''a'')],
      joints = [(''j'', jointOf ''j'' ''fixed'' ''a'' ''a'' None)],
      rootLink = None\<rparr>"

text \<open>A fixed joint element \<open>nm\<close> from the link \<open>pa\<close> to the link \<open>ch\<close>, and the
  documents that \<open>parseURDF\<close> turns into \<open>twoPathModel\<close> and \<open>loopModel\<close>.\<close>

definition fixedJointElement :: "string \<Rightarrow> string \<Rightarrow> string \<Rightarrow> XMLElement" where
  "fixedJointElement nm pa ch =
     XMLElement [(''name'', nm), (''type'', ''fixed'')]
       [(''parent'', [leaf [(''link'', pa)]]), (''child'', [leaf [(''link'', ch)]])]"

definition twoPathDocument :: XMLElement where
  "twoPathDocument =
     documentOf
       [(''link'', [leaf [(''name'', ''base'')], leaf [(''name'', ''a'')]]),
        (''joint'', [fixedJointElement ''j1'' ''base'' ''a'',
                     fixedJointElement ''j2'' ''base'' ''a''])]"

definition loopDocument :: XMLElement where
  "loopDocument =
     documentOf
       [(''link'', [leaf [(''name'', ''base'')], leaf [(''name'', ''a'')]]),
        (''joint'', [fixedJointElement ''j1'' ''base'' ''a'',
                     fixedJointElement ''j2'' ''a'' ''a''])]"

text \<open>
  An object literal with the given own properties. What it inherits are the members of
  \<open>Object.prototype\<close>: the function \<open>Object\<close> under \<open>constructor\<close>, eleven functions under
  their own names, and \<open>Object.prototype\<close> itself under \<open>__proto__\<close>. The text of a built-in
  function is \<open>function <name>() { [native code] }\<close>, that of a plain object
  \<open>[object Object]\<close>.
\<close>

definition nativeFunctionText :: "string \<Rightarrow> string" where
  "nativeFunctionText nm = ''function '' @ nm @ ''() { [native code] }''"

definition objectPrototypeText :: "string \<Rightarrow> string option" where
  "objectPrototypeText key =
     (if key = ''constructor'' then Some (nativeFunctionText ''Object'')
      else if key \<in> set [''hasOwnProperty'', ''isPrototypeOf'', ''propertyIsEnumerable'',
                          ''toLocaleString'', ''toString'', ''valueOf'',
                          ''__defineGetter__'', ''__defineSetter__'',
                          ''__lookupGetter__'', ''__lookupSetter__'']
           then Some (nativeFunctionText key)
      else if key = ''__proto__'' then Some ''[object Object]''
      else None)"

definition objectLiteral :: "(string \<times> string) list \<Rightarrow> StringRecord" where
  "objectLiteral props = \<lparr>ownProperties = props, inheritedText = objectPrototypeText\<rparr>"

text \<open>The options of the counterexample to claim C7: the package \<open>foo\<close> mapped to the
  relative prefix \<open>x\<close>, the package \<open>bar\<close> mapped to the empty prefix, and the working
  path \<open>/base\<close>.\<close>

definition relativeMapOptions :: ParseURDFOptions where
  "relativeMapOptions =
     \<lparr>packageMap = Some (objectLiteral [(''foo'', ''x''), (''bar'', [])]), workingPath = Some ''/base'',
      ignoreGazebo = None, ignoreTransmission = None\<rparr>"

text \<open>The options of the specification's examples for claim C7: the package \<open>foo\<close>
  mapped to \<open>/x\<close>, and the working path \<open>/base\<close>.\<close>

definition exampleOptions :: ParseURDFOptions where
  "exampleOptions =
     \<lparr>packageMap = Some (objectLiteral [(''foo'', ''/x'')]), workingPath = Some ''/base'',
      ignoreGazebo = None, ignoreTransmission = None\<rparr>"

text \<open>The options with the empty object literal for package map, and nothing else.\<close>

definition emptyMapOptions :: ParseURDFOptions where
  "emptyMapOptions =
     \<lparr>packageMap = Some (objectLiteral []), workingPath = None,
      ignoreGazebo = None, ignoreTransmission = None\<rparr>"

text \<open>A document with two root elements \<open>robot\<close>, the first of them with a link whose
  visual's geometry has an unknown shape.\<close>

definition twoRobotsDocument :: XMLElement where
  "twoRobotsDocument =
     XMLElement []
       [(''robot'',
          [XMLElement [(''name'', ''r'')]
             [(''link'',
                [XMLElement [(''name'', ''l'')]
                   [(''visual'',
                      [XMLElement []
                         [(''geometry'',
                            [XMLElement [] [(''foo'', [leaf [(''bar'', ''1'')]])]])]])]])],
           leaf [(''name'', ''s'')]])]"




section \<open>The joint objects of a built tree\<close>

text \<open>
  What holds of every stored joint object: the quaternion that its closure captured is
  what line 194 computed from the joint data that the closure captured, and the
  object's type, name, limits and axis are what lines 185 to 189 took from that data.
\<close>

definition closureOfOwnJoint :: "SceneObject \<Rightarrow> bool" where
  "closureOfOwnJoint ob =
     (case ob of
        PlainObject p \<Rightarrow> True
      | JointObject j jd oq \<Rightarrow>
          oq = originQuaternionOf jd \<and> axis j = axis (newJointObject jd)
          \<and> jointType j = jointType (newJointObject jd)
          \<and> jointName j = jointName (newJointObject jd)
          \<and> limits j = limits (newJointObject jd))"
section \<open>Rotations\<close>

lemma applyQuaternion_multiply:
  assumes "unitQ a" "unitQ b"
  shows "applyQuaternion v (multiply a b) = applyQuaternion (applyQuaternion v b) a"
proof -
  obtain a1 a2 a3 a4 where a: "a = Quaternion a1 a2 a3 a4" by (cases a)
  obtain b1 b2 b3 b4 where b: "b = Quaternion b1 b2 b3 b4" by (cases b)
  obtain v1 v2 v3 where v: "v = Vector3 v1 v2 v3" by (cases v)
  have A: "a1 * a1 + a2 * a2 + a3 * a3 + a4 * a4 = 1"
    using assms(1) by (simp add: unitQ_def a)
  have B: "b1 * b1 + b2 * b2 + b3 * b3 + b4 * b4 = 1"
    using assms(2) by (simp add: unitQ_def b)
  have X: "vx (applyQuaternion v (multiply a b)) = vx (applyQuaternion (applyQuaternion v b) a)"
    unfolding a b v using A B
    apply (simp add: applyQuaternion_def multiply_def Let_def)
    apply algebra
    done
  have Y: "vy (applyQuaternion v (multiply a b)) = vy (applyQuaternion (applyQuaternion v b) a)"
    unfolding a b v using A B
    apply (simp add: applyQuaternion_def multiply_def Let_def)
    apply algebra
    done
  have Z: "vz (applyQuaternion v (multiply a b)) = vz (applyQuaternion (applyQuaternion v b) a)"
    unfolding a b v using A B
    apply (simp add: applyQuaternion_def multiply_def Let_def)
    apply algebra
    done
  show ?thesis
    by (rule Vector3.expand) (simp add: X Y Z)
qed

lemma unitQ_setFromAxisAngle:
  assumes n: "vx a * vx a + vy a * vy a + vz a * vz a = 1"
  shows "unitQ (setFromAxisAngle a t)"
proof -
  have "(vx a * sin (t / 2)) * (vx a * sin (t / 2)) + (vy a * sin (t / 2)) * (vy a * sin (t / 2))
        + (vz a * sin (t / 2)) * (vz a * sin (t / 2)) + cos (t / 2) * cos (t / 2)
        = (vx a * vx a + vy a * vy a + vz a * vz a) * (sin (t / 2))\<^sup>2 + (cos (t / 2))\<^sup>2"
    by (simp add: power2_eq_square algebra_simps)
  also have "\<dots> = 1" by (simp add: n)
  finally show ?thesis by (simp add: unitQ_def setFromAxisAngle_def Let_def)
qed

lemma unitQ_multiply:
  assumes "unitQ a" "unitQ b"
  shows "unitQ (multiply a b)"
proof -
  obtain a1 a2 a3 a4 where a: "a = Quaternion a1 a2 a3 a4" by (cases a)
  obtain b1 b2 b3 b4 where b: "b = Quaternion b1 b2 b3 b4" by (cases b)
  have A: "a1 * a1 + a2 * a2 + a3 * a3 + a4 * a4 = 1"
    using assms(1) by (simp add: unitQ_def a)
  have B: "b1 * b1 + b2 * b2 + b3 * b3 + b4 * b4 = 1"
    using assms(2) by (simp add: unitQ_def b)
  have "(a1 * b4 + a4 * b1 + a2 * b3 - a3 * b2) * (a1 * b4 + a4 * b1 + a2 * b3 - a3 * b2)
      + (a2 * b4 + a4 * b2 + a3 * b1 - a1 * b3) * (a2 * b4 + a4 * b2 + a3 * b1 - a1 * b3)
      + (a3 * b4 + a4 * b3 + a1 * b2 - a2 * b1) * (a3 * b4 + a4 * b3 + a1 * b2 - a2 * b1)
      + (a4 * b4 - a1 * b1 - a2 * b2 - a3 * b3) * (a4 * b4 - a1 * b1 - a2 * b2 - a3 * b3)
      = (a1 * a1 + a2 * a2 + a3 * a3 + a4 * a4) * (b1 * b1 + b2 * b2 + b3 * b3 + b4 * b4)"
    by (simp add: algebra_simps)
  then show ?thesis
    by (simp add: unitQ_def multiply_def a b A B)
qed

text \<open>
  Claim C1. The quaternion that the builder derives from a pose's roll, pitch and yaw
  (\<open>setFromEuler\<close> of \<open>rpyToEuler\<close>, order \<open>'ZYX'\<close>) is the product
  \<open>Rz(yaw) Ry(pitch) Rx(roll)\<close> of the three axis rotations, and rotating a vector by
  it is rotating the vector by roll about the fixed X axis first, then by pitch about
  the fixed Y axis, then by yaw about the fixed Z axis.
\<close>

theorem rpy_is_extrinsic_xyz:
  "setFromEuler (rpyToEuler a) =
     multiply (multiply (setFromAxisAngle axisZ (rpy_y a)) (setFromAxisAngle axisY (rpy_p a)))
              (setFromAxisAngle axisX (rpy_r a))
   \<and> applyQuaternion v (setFromEuler (rpyToEuler a)) =
     applyQuaternion
       (applyQuaternion (applyQuaternion v (setFromAxisAngle axisX (rpy_r a)))
          (setFromAxisAngle axisY (rpy_p a)))
       (setFromAxisAngle axisZ (rpy_y a))"
proof -
  let ?X = "setFromAxisAngle axisX (rpy_r a)"
  let ?Y = "setFromAxisAngle axisY (rpy_p a)"
  let ?Z = "setFromAxisAngle axisZ (rpy_y a)"
  have E: "setFromEuler (rpyToEuler a) = multiply (multiply ?Z ?Y) ?X"
    by (simp add: setFromEuler_def rpyToEuler_def multiply_def setFromAxisAngle_def
        axisX_def axisY_def axisZ_def Let_def)
  have ux: "unitQ ?X" by (rule unitQ_setFromAxisAngle) (simp add: axisX_def)
  have uy: "unitQ ?Y" by (rule unitQ_setFromAxisAngle) (simp add: axisY_def)
  have uz: "unitQ ?Z" by (rule unitQ_setFromAxisAngle) (simp add: axisZ_def)
  have uzy: "unitQ (multiply ?Z ?Y)"
    by (rule unitQ_multiply[OF uz uy])
  show ?thesis
    by (simp only: E applyQuaternion_multiply[OF uzy ux] applyQuaternion_multiply[OF uz uy])
qed

section \<open>Joint values\<close>

lemma clampToLimits_clampedValue:
  "clampToLimits lims v =
     (case lims of None \<Rightarrow> v | Some l \<Rightarrow> clampedValue (lower l) (upper l) v)"
  by (auto simp: clampToLimits_def clampedValue_def Let_def split: option.splits)

lemma setJointValue_jointValue:
  "jointValue (setJointValue jd oq jo v) = clampToLimits (j_limits jd) v"
  by (simp add: setJointValue_def Let_def)

lemma setJointValue_last_wins:
  "setJointValue jd oq (setJointValue jd oq jo v1) v2 = setJointValue jd oq jo v2"
  by (simp add: setJointValue_def Let_def)

lemma setJointValue_funpow:
  "((\<lambda>n. setJointValue jd oq n v) ^^ Suc k) jo = setJointValue jd oq jo v"
  by (induction k) (simp_all add: setJointValue_last_wins)

lemma setJointValue_cong_clamp:
  "clampToLimits (j_limits jd) v = clampToLimits (j_limits jd) w \<Longrightarrow>
   setJointValue jd oq jo v = setJointValue jd oq jo w"
  by (simp add: setJointValue_def Let_def)

lemma clamp_above:
  "upper lm = Some u \<Longrightarrow> u < v \<Longrightarrow> clampToLimits (Some lm) v = clampToLimits (Some lm) u"
  by (auto simp: clampToLimits_def Let_def split: option.splits)

lemma clamp_below:
  "lower lm = Some l \<Longrightarrow> v < l \<Longrightarrow> clampToLimits (Some lm) v = clampToLimits (Some lm) l"
  by (auto simp: clampToLimits_def Let_def split: option.splits)

lemma clamp_within:
  "(\<forall>l. lower lm = Some l \<longrightarrow> l \<le> v) \<Longrightarrow> (\<forall>u. upper lm = Some u \<longrightarrow> v \<le> u) \<Longrightarrow>
   clampToLimits (Some lm) v = v"
  by (auto simp: clampToLimits_def Let_def split: option.splits)

lemma setJointValue_revolute:
  "j_type jd = ''revolute'' \<or> j_type jd = ''continuous'' \<Longrightarrow>
   setJointValue jd oq jo v =
     jo\<lparr>jointValue := clampToLimits (j_limits jd) v,
        quaternion := multiply oq (setFromAxisAngle (axis jo) (clampToLimits (j_limits jd) v))\<rparr>"
  by (auto simp add: setJointValue_def Let_def)

lemma setJointValue_immovable:
  "j_type jd = ''fixed'' \<or> j_type jd = ''floating'' \<or> j_type jd = ''planar'' \<Longrightarrow>
   setJointValue jd oq jo v = jo\<lparr>jointValue := clampToLimits (j_limits jd) v\<rparr>"
  by (auto simp add: setJointValue_def Let_def)

lemma cos_half_neq_cos_one: "cos (1 / 2 :: real) \<noteq> cos 1"
proof -
  have "(1::real) \<le> pi" using pi_ge_two by linarith
  then have "cos (1::real) < cos (1 / 2)"
    by (intro cos_monotone_0_pi) simp_all
  then show ?thesis by simp
qed




lemma parseJoint_keeps_limits:
  assumes "parseJoint pf options e = Inr jd"
  shows "j_type jd = getAttribute e ''type'' None
       \<and> j_limits jd = map_option (parseJointLimits pf) (getChild e ''limit'')"
  using assms
  by (auto simp: parseJoint_def Let_def andThen_def split: option.splits sum.splits if_splits)

text \<open>
  Claim C4, at its failing input: a continuous joint whose record carries the limits
  \<open>lower = -1\<close>, \<open>upper = 1\<close> is asked for the value \<open>2\<close>. The node stores \<open>1\<close> and is
  rotated by \<open>1\<close> radian about its axis, which is not the rotation by the \<open>2\<close> radians
  requested.
\<close>

theorem continuous_joint_is_clamped:
  "jointValue (setJointValue (jointOf ''j'' ''continuous'' ''a'' ''b'' (Some unitLimits))
       (originQuaternionOf (jointOf ''j'' ''continuous'' ''a'' ''b'' (Some unitLimits)))
       (newJointObject (jointOf ''j'' ''continuous'' ''a'' ''b'' (Some unitLimits))) 2) = 1
   \<and> quaternion (setJointValue (jointOf ''j'' ''continuous'' ''a'' ''b'' (Some unitLimits))
       (originQuaternionOf (jointOf ''j'' ''continuous'' ''a'' ''b'' (Some unitLimits)))
       (newJointObject (jointOf ''j'' ''continuous'' ''a'' ''b'' (Some unitLimits))) 2) =
     multiply (originQuaternionOf (jointOf ''j'' ''continuous'' ''a'' ''b'' (Some unitLimits)))
       (setFromAxisAngle (Vector3 0 0 1) 1)
   \<and> quaternion (setJointValue (jointOf ''j'' ''continuous'' ''a'' ''b'' (Some unitLimits))
       (originQuaternionOf (jointOf ''j'' ''continuous'' ''a'' ''b'' (Some unitLimits)))
       (newJointObject (jointOf ''j'' ''continuous'' ''a'' ''b'' (Some unitLimits))) 2) \<noteq>
     multiply (originQuaternionOf (jointOf ''j'' ''continuous'' ''a'' ''b'' (Some unitLimits)))
       (setFromAxisAngle (Vector3 0 0 1) 2)"
proof -
  let ?J = "jointOf ''j'' ''continuous'' ''a'' ''b'' (Some unitLimits)"
  have ty: "j_type ?J = ''revolute'' \<or> j_type ?J = ''continuous''"
    by (simp add: jointOf_def)
  have c: "clampToLimits (j_limits ?J) 2 = 1"
    by (simp add: jointOf_def unitLimits_def clampToLimits_def)
  have ax: "axis (newJointObject ?J) = Vector3 0 0 1"
    by (simp add: jointOf_def newJointObject_def)
  have oq: "originQuaternionOf ?J = Quaternion 0 0 0 1"
    by (simp add: originQuaternionOf_def jointOf_def zeroPose_def rpyToEuler_def
        setFromEuler_def)
  have ne: "multiply (Quaternion 0 0 0 1) (setFromAxisAngle (Vector3 0 0 1) 1) \<noteq>
            multiply (Quaternion 0 0 0 1) (setFromAxisAngle (Vector3 0 0 1) 2)"
    using cos_half_neq_cos_one by (simp add: multiply_def setFromAxisAngle_def Let_def)
  show ?thesis
    using ne by (simp add: setJointValue_revolute[OF ty] c ax oq)
qed

text \<open>
  Claim C6. For a revolute joint whose record has limits: a value above the upper
  limit leaves the node exactly as setting the upper limit does, and a value below the
  lower limit exactly as setting the lower limit does; a value that no declared limit
  excludes is stored and applied as it is; any number of calls with one value leaves
  the node as one call does; and after two calls the node is as after the last one.
\<close>

theorem revolute_limits_clamp_and_idempotence:
  assumes ty: "j_type jd = ''revolute''" and lm: "j_limits jd = Some lm"
  shows "(\<forall>u v. upper lm = Some u \<longrightarrow> u < v \<longrightarrow>
            setJointValue jd oq jo v = setJointValue jd oq jo u)
       \<and> (\<forall>l v. lower lm = Some l \<longrightarrow> v < l \<longrightarrow>
            setJointValue jd oq jo v = setJointValue jd oq jo l)
       \<and> (\<forall>v. (\<forall>l. lower lm = Some l \<longrightarrow> l \<le> v) \<longrightarrow> (\<forall>u. upper lm = Some u \<longrightarrow> v \<le> u) \<longrightarrow>
            jointValue (setJointValue jd oq jo v) = v
            \<and> quaternion (setJointValue jd oq jo v) =
                multiply oq (setFromAxisAngle (axis jo) v))
       \<and> (\<forall>v k. ((\<lambda>n. setJointValue jd oq n v) ^^ Suc k) jo = setJointValue jd oq jo v)
       \<and> (\<forall>v w. setJointValue jd oq (setJointValue jd oq jo w) v = setJointValue jd oq jo v)"
proof (intro conjI allI impI)
  fix u v assume "upper lm = Some u" "u < v"
  then show "setJointValue jd oq jo v = setJointValue jd oq jo u"
    by (intro setJointValue_cong_clamp) (simp add: lm clamp_above)
next
  fix l v assume "lower lm = Some l" "v < l"
  then show "setJointValue jd oq jo v = setJointValue jd oq jo l"
    by (intro setJointValue_cong_clamp) (simp add: lm clamp_below)
next
  fix v assume a: "\<forall>l. lower lm = Some l \<longrightarrow> l \<le> v" "\<forall>u. upper lm = Some u \<longrightarrow> v \<le> u"
  have c: "clampToLimits (j_limits jd) v = v" by (simp add: lm clamp_within[OF a])
  show "jointValue (setJointValue jd oq jo v) = v"
    by (simp add: setJointValue_jointValue c)
  show "quaternion (setJointValue jd oq jo v) = multiply oq (setFromAxisAngle (axis jo) v)"
    by (simp add: setJointValue_revolute ty c)
next
  fix v k show "((\<lambda>n. setJointValue jd oq n v) ^^ Suc k) jo = setJointValue jd oq jo v"
    by (rule setJointValue_funpow)
next
  fix v w show "setJointValue jd oq (setJointValue jd oq jo w) v = setJointValue jd oq jo v"
    by (rule setJointValue_last_wins)
qed

theorem revolute_limits_clamp_and_idempotence_witness:
  "setJointValue (jointOf ''j'' ''revolute'' ''a'' ''b'' (Some unitLimits))
       (originQuaternionOf (jointOf ''j'' ''revolute'' ''a'' ''b'' (Some unitLimits)))
       (newJointObject (jointOf ''j'' ''revolute'' ''a'' ''b'' (Some unitLimits))) 2 =
   setJointValue (jointOf ''j'' ''revolute'' ''a'' ''b'' (Some unitLimits))
       (originQuaternionOf (jointOf ''j'' ''revolute'' ''a'' ''b'' (Some unitLimits)))
       (newJointObject (jointOf ''j'' ''revolute'' ''a'' ''b'' (Some unitLimits))) 1
   \<and> setJointValue (jointOf ''j'' ''revolute'' ''a'' ''b'' (Some unitLimits))
       (originQuaternionOf (jointOf ''j'' ''revolute'' ''a'' ''b'' (Some unitLimits)))
       (newJointObject (jointOf ''j'' ''revolute'' ''a'' ''b'' (Some unitLimits))) (- 3) =
     setJointValue (jointOf ''j'' ''revolute'' ''a'' ''b'' (Some unitLimits))
       (originQuaternionOf (jointOf ''j'' ''revolute'' ''a'' ''b'' (Some unitLimits)))
       (newJointObject (jointOf ''j'' ''revolute'' ''a'' ''b'' (Some unitLimits))) (- 1)
   \<and> jointValue (setJointValue (jointOf ''j'' ''revolute'' ''a'' ''b'' (Some unitLimits))
       (originQuaternionOf (jointOf ''j'' ''revolute'' ''a'' ''b'' (Some unitLimits)))
       (newJointObject (jointOf ''j'' ''revolute'' ''a'' ''b'' (Some unitLimits))) (1 / 2)) = 1 / 2
   \<and> ((\<lambda>n. setJointValue (jointOf ''j'' ''revolute'' ''a'' ''b'' (Some unitLimits))
              (originQuaternionOf (jointOf ''j'' ''revolute'' ''a'' ''b'' (Some unitLimits))) n 2)
        ^^ Suc 2) (newJointObject (jointOf ''j'' ''revolute'' ''a'' ''b'' (Some unitLimits))) =
     setJointValue (jointOf ''j'' ''revolute'' ''a'' ''b'' (Some unitLimits))
       (originQuaternionOf (jointOf ''j'' ''revolute'' ''a'' ''b'' (Some unitLimits)))
       (newJointObject (jointOf ''j'' ''revolute'' ''a'' ''b'' (Some unitLimits))) 2"
proof -
  let ?J = "jointOf ''j'' ''revolute'' ''a'' ''b'' (Some unitLimits)"
  have ty: "j_type ?J = ''revolute''" by (simp add: jointOf_def)
  have lm: "j_limits ?J = Some unitLimits" by (simp add: jointOf_def)
  note T = revolute_limits_clamp_and_idempotence
             [OF ty lm, of "originQuaternionOf ?J" "newJointObject ?J"]
  have up: "upper unitLimits = Some 1" and lo: "lower unitLimits = Some (- 1)"
    by (simp_all add: unitLimits_def)
  from T have 1: "setJointValue ?J (originQuaternionOf ?J) (newJointObject ?J) 2 =
                  setJointValue ?J (originQuaternionOf ?J) (newJointObject ?J) 1"
    using up by simp
  from T have 2: "setJointValue ?J (originQuaternionOf ?J) (newJointObject ?J) (- 3) =
                  setJointValue ?J (originQuaternionOf ?J) (newJointObject ?J) (- 1)"
    using lo by simp
  from T have 3: "jointValue (setJointValue ?J (originQuaternionOf ?J) (newJointObject ?J) (1 / 2))
                  = 1 / 2"
    using up lo by simp
  from T have 4: "((\<lambda>n. setJointValue ?J (originQuaternionOf ?J) n 2) ^^ Suc 2) (newJointObject ?J) =
                  setJointValue ?J (originQuaternionOf ?J) (newJointObject ?J) 2"
    by blast
  show ?thesis using 1 2 3 4 by blast
qed

text \<open>
  Claim C8. For a joint of type fixed, floating or planar, \<open>setJointValue\<close> returns for
  every value (the model has no error to return), and after any sequence of calls the
  node's position and orientation are what they were before the first.
\<close>

theorem immovable_joint_keeps_transform:
  assumes "j_type jd = ''fixed'' \<or> j_type jd = ''floating'' \<or> j_type jd = ''planar''"
  shows "position (foldl (setJointValue jd oq) jo vs) = position jo
       \<and> quaternion (foldl (setJointValue jd oq) jo vs) = quaternion jo"
proof (induction vs arbitrary: jo)
  case Nil
  show ?case by simp
next
  case (Cons v vs)
  have s: "setJointValue jd oq jo v = jo\<lparr>jointValue := clampToLimits (j_limits jd) v\<rparr>"
    by (rule setJointValue_immovable[OF assms])
  show ?case
    using Cons.IH[of "setJointValue jd oq jo v"] by (simp add: s)
qed

theorem immovable_joint_keeps_transform_witness:
  "position (foldl (setJointValue (jointOf ''j'' ''fixed'' ''a'' ''b'' (Some unitLimits))
                      (originQuaternionOf (jointOf ''j'' ''fixed'' ''a'' ''b'' (Some unitLimits))))
               (newJointObject (jointOf ''j'' ''fixed'' ''a'' ''b'' (Some unitLimits))) [2, 5, - 7])
     = Vector3 0 0 0
   \<and> quaternion (foldl (setJointValue (jointOf ''j'' ''fixed'' ''a'' ''b'' (Some unitLimits))
                      (originQuaternionOf (jointOf ''j'' ''fixed'' ''a'' ''b'' (Some unitLimits))))
               (newJointObject (jointOf ''j'' ''fixed'' ''a'' ''b'' (Some unitLimits))) [2, 5, - 7])
     = originQuaternionOf (jointOf ''j'' ''fixed'' ''a'' ''b'' (Some unitLimits))"
proof -
  let ?J = "jointOf ''j'' ''fixed'' ''a'' ''b'' (Some unitLimits)"
  have ty: "j_type ?J = ''fixed'' \<or> j_type ?J = ''floating'' \<or> j_type ?J = ''planar''"
    by (simp add: jointOf_def)
  have p: "position (newJointObject ?J) = Vector3 0 0 0"
    by (simp add: newJointObject_def jointOf_def zeroPose_def)
  have q: "quaternion (newJointObject ?J) = originQuaternionOf ?J"
    by (simp add: newJointObject_def)
  show ?thesis
    using immovable_joint_keeps_transform
            [OF ty, of "originQuaternionOf ?J" "newJointObject ?J" "[2, 5, - 7]"]
    by (simp only: p q)
qed

text \<open>
  Claim C10. For a joint of any type, after \<open>setJointValue\<close> with the value \<open>v\<close> the
  node's \<open>jointValue\<close> is \<open>v\<close> when the joint's record has no limits, and \<open>v\<close> clamped
  to the declared lower and upper limits when it has.
\<close>

theorem jointValue_is_clamped_value:
  "jointValue (setJointValue jd oq jo v) =
     (case j_limits jd of
        None \<Rightarrow> v
      | Some l \<Rightarrow> clampedValue (lower l) (upper l) v)"
  by (simp add: setJointValue_jointValue clampToLimits_clampedValue)

section \<open>The build traversal\<close>

lemma length_add: "length (add p c obs) = length obs"
  by (simp add: add_def)

lemma objectName_pushChild: "objectName (pushChild c ob) = objectName ob"
  by (cases ob) (simp_all add: pushChild_def objectName_def)

lemma names_add: "map objectName (add p c obs) = map objectName obs"
  by (auto simp add: add_def map_update objectName_pushChild list_update_same_conv)

lemma jointsByParent_loopModel:
  "jointsByParent loopModel =
     [(''base'', [jointOf ''j1'' ''fixed'' ''base'' ''a'' None]),
      (''a'', [jointOf ''j2'' ''fixed'' ''a'' ''a'' None])]"
  by (simp add: jointsByParent_def loopModel_def modelOf_def Map_values_def indexJoint_def
      Map_get_def jointOf_def)

text \<open>In the model with the joint from \<open>a\<close> to \<open>a\<close>, the call for \<open>a\<close> returns for no
  depth of stack: each call reaches the call for the joint's child, \<open>a\<close> again.\<close>

lemma buildLink_loop_a:
  assumes "env_model env = loopModel" "env_jointsByParent env = jointsByParent loopModel"
  shows "buildLink fuel env ''a'' p r = None"
proof (induction fuel arbitrary: p r)
  case 0
  show ?case by simp
next
  case (Suc fuel)
  have l: "Map_get (links loopModel) ''a'' = Some (linkOf ''a'')"
    by (simp add: loopModel_def modelOf_def Map_get_def linkOf_def)
  have j: "Map_get (jointsByParent loopModel) ''a'' = Some [jointOf ''j2'' ''fixed'' ''a'' ''a'' None]"
    by (simp add: jointsByParent_loopModel Map_get_def)
  have c: "j_child (jointOf ''j2'' ''fixed'' ''a'' ''a'' None) = ''a''"
    by (simp add: jointOf_def)
  show ?case
    by (simp add: assms l j c Suc.IH Let_def split_beta)
qed

lemma buildLink_loop_base:
  assumes "env_model env = loopModel" "env_jointsByParent env = jointsByParent loopModel"
  shows "buildLink fuel env ''base'' p r = None"
proof (cases fuel)
  case 0
  then show ?thesis by simp
next
  case (Suc f)
  have l: "Map_get (links loopModel) ''base'' = Some (linkOf ''base'')"
    by (simp add: loopModel_def modelOf_def Map_get_def linkOf_def)
  have j: "Map_get (jointsByParent loopModel) ''base'' =
             Some [jointOf ''j1'' ''fixed'' ''base'' ''a'' None]"
    by (simp add: jointsByParent_loopModel Map_get_def)
  have c: "j_child (jointOf ''j1'' ''fixed'' ''base'' ''a'' None) = ''a''"
    by (simp add: jointOf_def)
  show ?thesis
    by (simp add: Suc assms l j c buildLink_loop_a[OF assms] Let_def split_beta)
qed

lemma jointsByParent_twoPathModel:
  "jointsByParent twoPathModel =
     [(''base'', [jointOf ''j1'' ''fixed'' ''base'' ''a'' None,
                  jointOf ''j2'' ''fixed'' ''base'' ''a'' None])]"
  by (simp add: jointsByParent_def twoPathModel_def modelOf_def Map_values_def indexJoint_def
      Map_get_def jointOf_def)

lemma parse_failing_documents:
  "parseURDF parseFloat0 noOptions loopDocument = Inr loopModel"
  "parseURDF parseFloat0 noOptions twoPathDocument = Inr twoPathModel"
  by (simp_all add: parseURDF_def parseRobot_def loopDocument_def twoPathDocument_def documentOf_def
      fixedJointElement_def getChild_def getChildren_def isEmptyElement_def getAttribute_def
      getAttributes_def andThen_def Let_def leaf_def parseLink_def parseJoint_def
      originOrZero_def parseSelfCollision_def loopModel_def twoPathModel_def modelOf_def
      linkOf_def jointOf_def childLinksOf_def Map_values_def Map_keys_def Set_add_def)

text \<open>
  Claim C3, at two failing inputs, both models that \<open>parseURDF\<close> returns. With a
  joint from the link \<open>a\<close> to \<open>a\<close> itself, the build returns for no depth of stack,
  whatever the options. With two joints from \<open>base\<close> to the same child \<open>a\<close>, the
  build makes two objects named \<open>link_a\<close> (objects 3 and 5), and \<open>robot.links\<close> ends
  with \<open>a\<close> mapped to the second one: the later arrival is built again and replaces
  the first.
\<close>

theorem build_revisits_links:
  "parseURDF parseFloat0 noOptions loopDocument = Inr loopModel
   \<and> buildRobotStructure fuel loopModel options = None
   \<and> parseURDF parseFloat0 noOptions twoPathDocument = Inr twoPathModel
   \<and> map_option (\<lambda>r. (robot_links r, map objectName (objects r)))
       (buildRobotStructure (Suc (Suc (Suc 0))) twoPathModel plainOptions) =
     Some ([(''base'', 1), (''a'', 5)],
           [''r'', ''link_base'', ''joint_j1'', ''link_a'', ''joint_j2'', ''link_a''])"
proof (intro conjI)
  show "parseURDF parseFloat0 noOptions loopDocument = Inr loopModel"
    by (rule parse_failing_documents)
  show "parseURDF parseFloat0 noOptions twoPathDocument = Inr twoPathModel"
    by (rule parse_failing_documents)
  have r: "rootLink loopModel = Some ''base''"
    by (simp add: loopModel_def modelOf_def)
  show "buildRobotStructure fuel loopModel options = None"
    by (simp add: buildRobotStructure_def Let_def r buildLink_loop_base)
next
  have r: "rootLink twoPathModel = Some ''base''" "m_name twoPathModel = ''r''"
    by (simp_all add: twoPathModel_def modelOf_def)
  have l: "Map_get (links twoPathModel) ''base'' = Some (linkOf ''base'')"
          "Map_get (links twoPathModel) ''a'' = Some (linkOf ''a'')"
    by (simp_all add: twoPathModel_def modelOf_def Map_get_def linkOf_def)
  have j: "Map_get (jointsByParent twoPathModel) ''base'' =
             Some [jointOf ''j1'' ''fixed'' ''base'' ''a'' None,
                   jointOf ''j2'' ''fixed'' ''base'' ''a'' None]"
          "Map_get (jointsByParent twoPathModel) ''a'' = None"
    by (simp_all add: jointsByParent_twoPathModel Map_get_def)
  have c: "j_child (jointOf ''j1'' ''fixed'' ''base'' ''a'' None) = ''a''"
          "j_child (jointOf ''j2'' ''fixed'' ''base'' ''a'' None) = ''a''"
          "j_name (jointOf ''j1'' ''fixed'' ''base'' ''a'' None) = ''j1''"
          "j_name (jointOf ''j2'' ''fixed'' ''base'' ''a'' None) = ''j2''"
    by (simp_all add: jointOf_def)
  have n: "name (newJointObject jd) = ''joint_'' @ j_name jd" for jd
    by (simp add: newJointObject_def)
  show "map_option (\<lambda>r. (robot_links r, map objectName (objects r)))
          (buildRobotStructure (Suc (Suc (Suc 0))) twoPathModel plainOptions) =
        Some ([(''base'', 1), (''a'', 5)],
              [''r'', ''link_base'', ''joint_j1'', ''link_a'', ''joint_j2'', ''link_a''])"
    by (simp add: buildRobotStructure_def Let_def r l j c n plainOptions_def alloc_def
        length_add names_add objectName_def newObject3D_def split_beta)
qed

section \<open>The root link\<close>

lemma findRootLink_find: "findRootLink cl ks = find (\<lambda>n. n \<notin> set cl) ks"
  by (induction ks) simp_all

lemma set_foldl_Set_add:
  "set (foldl (\<lambda>s joint. Set_add s (g joint)) s0 js) = set s0 \<union> g ` set js"
  by (induction js arbitrary: s0) (auto simp: Set_add_def)

lemma set_childLinksOf: "set (childLinksOf js) = j_child ` set (Map_values js)"
  by (simp add: childLinksOf_def set_foldl_Set_add)

lemma parseURDF_rootLink:
  assumes "parseURDF pf options parsed = Inr model"
  shows "rootLink model = findRootLink (childLinksOf (joints model)) (Map_keys (links model))"
  using assms
  by (auto simp: parseURDF_def parseRobot_def Let_def andThen_def
      split: option.splits sum.splits list.splits if_splits)

lemma build_without_root:
  "rootLink model = None \<Longrightarrow>
   \<exists>robot. buildRobotStructure fuel model bo = Some robot
           \<and> robot_links robot = [] \<and> robot_joints robot = []"
  by (simp add: buildRobotStructure_def Let_def)

lemma parse_selfLoopDocument:
  "parseURDF parseFloat0 noOptions selfLoopDocument = Inr selfLoopModel"
  by (simp add: parseURDF_def parseRobot_def selfLoopDocument_def documentOf_def getChild_def getChildren_def
      isEmptyElement_def getAttribute_def getAttributes_def andThen_def Let_def leaf_def
      parseLink_def parseJoint_def originOrZero_def parseSelfCollision_def selfLoopModel_def
      linkOf_def jointOf_def childLinksOf_def Map_values_def Map_keys_def Set_add_def)

text \<open>
  Claim C5. When parsing succeeds, the model's root link is the first name, in the
  iteration order of the model's links, that is no joint's child; when there is none,
  \<open>rootLink\<close> is unset, and the build of such a model returns (with any depth of
  stack and any options) a robot whose \<open>links\<close> and \<open>joints\<close> maps are empty.
\<close>

theorem root_link_is_first_non_child:
  assumes "parseURDF pf options parsed = Inr model"
  shows "rootLink model =
           find (\<lambda>n. n \<notin> j_child ` set (Map_values (joints model))) (Map_keys (links model))
         \<and> (rootLink model = None \<longrightarrow>
              (\<exists>robot. buildRobotStructure fuel model bo = Some robot
                 \<and> robot_links robot = [] \<and> robot_joints robot = []))"
  using parseURDF_rootLink[OF assms]
  by (simp add: findRootLink_find set_childLinksOf build_without_root)

theorem root_link_is_first_non_child_witness:
  "parseURDF parseFloat0 noOptions selfLoopDocument = Inr selfLoopModel
   \<and> rootLink selfLoopModel = None
   \<and> (\<exists>robot. buildRobotStructure 0 selfLoopModel plainOptions = Some robot
         \<and> robot_links robot = [] \<and> robot_joints robot = [])"
proof -
  have n: "rootLink selfLoopModel = None" by (simp add: selfLoopModel_def)
  from root_link_is_first_non_child[OF parse_selfLoopDocument, of 0 plainOptions]
  have "\<exists>robot. buildRobotStructure 0 selfLoopModel plainOptions = Some robot
          \<and> robot_links robot = [] \<and> robot_joints robot = []"
    using n by blast
  then show ?thesis using parse_selfLoopDocument n by blast
qed

section \<open>Joint objects of a built tree\<close>










lemma callSetJointValue_joint:
  assumes "list_all closureOfOwnJoint (objects robot)"
      and "i < length (objects robot)"
      and "objects robot ! i = JointObject j jd oq"
  shows "objects (callSetJointValue i v robot) ! i =
           JointObject (setJointValue jd (originQuaternionOf jd) j v) jd (originQuaternionOf jd)"
proof -
  have "closureOfOwnJoint (objects robot ! i)"
    using assms(1,2) by (simp add: list_all_length)
  then have "oq = originQuaternionOf jd"
    by (simp add: assms(3) closureOfOwnJoint_def)
  then show ?thesis
    by (simp add: callSetJointValue_def assms(2,3))
qed

lemma callSetJointValue_others:
  "k \<noteq> i \<Longrightarrow> objects (callSetJointValue i v robot) ! k = objects robot ! k"
  by (simp add: callSetJointValue_def split: SceneObject.splits)





section \<open>The joint of \<open>swingModel\<close>\<close>







section \<open>The orientation of a revolute or continuous joint\<close>




text \<open>\<open>robot.setJointValues\<close> is a sequence of calls of \<open>setJointValue\<close>.\<close>

lemma setJointValues_calls:
  "\<exists>calls. setJointValues vs robot =
            foldl (\<lambda>r c. callSetJointValue (fst c) (snd c) r) robot calls"
proof (induction vs arbitrary: robot)
  case Nil
  have "setJointValues [] robot = foldl (\<lambda>r c. callSetJointValue (fst c) (snd c) r) robot []"
    by simp
  then show ?case by blast
next
  case (Cons a vs)
  obtain nm v where a: "a = (nm, v)" by (cases a)
  show ?case
  proof (cases "Map_get (robot_joints robot) nm")
    case None
    then show ?thesis using Cons.IH[of robot] by (simp add: a)
  next
    case (Some joint)
    from Cons.IH[of "callSetJointValue joint v robot"] obtain calls where
      "setJointValues vs (callSetJointValue joint v robot) =
         foldl (\<lambda>r c. callSetJointValue (fst c) (snd c) r) (callSetJointValue joint v robot) calls"
      by blast
    then have "setJointValues (a # vs) robot =
                 foldl (\<lambda>r c. callSetJointValue (fst c) (snd c) r) robot ((joint, v) # calls)"
      by (simp add: a Some)
    then show ?thesis by blast
  qed
qed
section \<open>Mesh file names\<close>

lemma startsWith_package: "startsWith (''package://'' @ s) ''package://''"
  by (simp add: startsWith_def)

lemma matchPackageURI_form:
  assumes "pkg \<noteq> []" "CHR ''/'' \<notin> set pkg" "rest \<noteq> []" "\<not> list_ex isLineTerminator rest"
  shows "matchPackageURI (''package://'' @ pkg @ ''/'' @ rest) = Some (pkg, rest)"
proof -
  have d: "drop 10 (''package://'' @ pkg @ ''/'' @ rest) = pkg @ ''/'' @ rest" by simp
  have t: "takeWhile (\<lambda>c. c \<noteq> CHR ''/'') (pkg @ ''/'' @ rest) = pkg"
    using assms(2) by (subst takeWhile_append2) auto
  have dw: "dropWhile (\<lambda>c. c \<noteq> CHR ''/'') (pkg @ ''/'' @ rest) = ''/'' @ rest"
    using assms(2) by (subst dropWhile_append2) auto
  show ?thesis
    unfolding matchPackageURI_def d Let_def t dw
    using assms by (simp add: startsWith_package del: append.simps)
qed

text \<open>The mesh branch of \<open>parseGeometry\<close> stores the resolved file name.\<close>

lemma parseGeometry_mesh:
  assumes "getChild g ''box'' = None" "getChild g ''cylinder'' = None"
    "getChild g ''sphere'' = None" "getChild g ''mesh'' = Some m"
    "getAttribute m ''scale'' None = []"
  shows "parseGeometry pf options g =
           Inr (MeshGeometry (resolveMeshFilename options (getAttribute m ''filename'' (Some []))) None)"
  by (simp add: parseGeometry_def assms Let_def)

text \<open>
  Claim C7 as stated fails: with the package \<open>foo\<close> mapped to the relative prefix \<open>x\<close>
  and the working path \<open>/base\<close>, \<open>package://foo/bar.stl\<close> resolves to
  \<open>/base/x/bar.stl\<close>, not to \<open>x/bar.stl\<close>; and with the package \<open>bar\<close> mapped to the
  empty prefix, \<open>package://bar/bar.stl\<close> is left as it is, not rewritten to
  \<open>/bar.stl\<close>.
\<close>

theorem mapped_package_uri_not_prefix_rest:
  "resolveMeshFilename relativeMapOptions ''package://foo/bar.stl'' = ''/base/x/bar.stl''
   \<and> ''/base/x/bar.stl'' \<noteq> ''x'' @ ''/'' @ ''bar.stl''
   \<and> resolveMeshFilename relativeMapOptions ''package://bar/bar.stl'' = ''package://bar/bar.stl''
   \<and> ''package://bar/bar.stl'' \<noteq> [] @ ''/'' @ ''bar.stl''"
  by (simp add: resolveMeshFilename_def relativeMapOptions_def objectLiteral_def
      truthyProperty_def startsWith_def matchPackageURI_def Let_def isLineTerminator_def)

text \<open>
  An identifier that is no own property of the package map but the name of a member
  that the map inherits is taken for mapped: with the empty object literal for package
  map, \<open>package://constructor/a.stl\<close> is rewritten with the text of the function
  \<open>Object\<close> for prefix, and \<open>package://other/a.stl\<close> is left as it is.
\<close>

lemma inherited_member_is_taken_for_prefix:
  "resolveMeshFilename emptyMapOptions ''package://constructor/a.stl'' =
     ''function Object() { [native code] }/a.stl''"
  "resolveMeshFilename emptyMapOptions ''package://other/a.stl'' = ''package://other/a.stl''"
  by (simp_all add: resolveMeshFilename_def emptyMapOptions_def objectLiteral_def
      truthyProperty_def objectPrototypeText_def nativeFunctionText_def startsWith_def
      matchPackageURI_def Let_def isLineTerminator_def)

text \<open>
  Claim C7, amended. For \<open>package://<id>/<rest>\<close> (the identifier non-empty and
  without \<open>/\<close>, the rest non-empty and without a line break) whose identifier is an
  own entry of the package map with a non-empty prefix: the result is
  \<open><prefix>/<rest>\<close> when that is absolute, or still a \<open>package://\<close> name, or no
  working path is set (or an empty one); otherwise it is
  \<open><workingPath>/<prefix>/<rest>\<close>. A name that starts with \<open>package://\<close> is returned
  unchanged when the package map has for its identifier neither an own entry with a
  non-empty prefix nor, failing an own entry, an inherited member. A non-empty name
  that starts neither with \<open>package://\<close> nor with \<open>/\<close>, with a non-empty working path,
  becomes \<open><workingPath>/<name>\<close>.
\<close>

theorem mesh_filename_resolution:
  "(pkg \<noteq> [] \<and> CHR ''/'' \<notin> set pkg \<and> rest \<noteq> [] \<and> \<not> list_ex isLineTerminator rest
      \<and> packageMap options = Some pm \<and> map_of (ownProperties pm) pkg = Some prefix
      \<and> prefix \<noteq> []
      \<and> (startsWith (prefix @ ''/'' @ rest) ''/''
          \<or> startsWith (prefix @ ''/'' @ rest) ''package://''
          \<or> workingPath options = None \<or> workingPath options = Some [])
      \<longrightarrow> resolveMeshFilename options (''package://'' @ pkg @ ''/'' @ rest) =
            prefix @ ''/'' @ rest)
   \<and> (pkg \<noteq> [] \<and> CHR ''/'' \<notin> set pkg \<and> rest \<noteq> [] \<and> \<not> list_ex isLineTerminator rest
      \<and> packageMap options = Some pm \<and> map_of (ownProperties pm) pkg = Some prefix
      \<and> prefix \<noteq> []
      \<and> \<not> startsWith (prefix @ ''/'' @ rest) ''/''
      \<and> \<not> startsWith (prefix @ ''/'' @ rest) ''package://''
      \<and> workingPath options = Some wp \<and> wp \<noteq> []
      \<longrightarrow> resolveMeshFilename options (''package://'' @ pkg @ ''/'' @ rest) =
            wp @ ''/'' @ prefix @ ''/'' @ rest)
   \<and> (startsWith f ''package://''
      \<and> (\<forall>p r m. matchPackageURI f = Some (p, r) \<longrightarrow> packageMap options = Some m \<longrightarrow>
             (case map_of (ownProperties m) p of
                Some x \<Rightarrow> x = []
              | None \<Rightarrow> inheritedText m p = None))
      \<longrightarrow> resolveMeshFilename options f = f)
   \<and> (f \<noteq> [] \<and> \<not> startsWith f ''package://'' \<and> \<not> startsWith f ''/''
      \<and> workingPath options = Some wp \<and> wp \<noteq> []
      \<longrightarrow> resolveMeshFilename options f = wp @ ''/'' @ f)"
proof (intro conjI impI)
  assume a: "pkg \<noteq> [] \<and> CHR ''/'' \<notin> set pkg \<and> rest \<noteq> [] \<and> \<not> list_ex isLineTerminator rest
      \<and> packageMap options = Some pm \<and> map_of (ownProperties pm) pkg = Some prefix
      \<and> prefix \<noteq> []
      \<and> (startsWith (prefix @ ''/'' @ rest) ''/''
          \<or> startsWith (prefix @ ''/'' @ rest) ''package://''
          \<or> workingPath options = None \<or> workingPath options = Some [])"
  then have m: "matchPackageURI (''package://'' @ pkg @ ''/'' @ rest) = Some (pkg, rest)"
    by (intro matchPackageURI_form) simp_all
  from a have t: "truthyProperty pm pkg = Some prefix"
    by (simp add: truthyProperty_def)
  show "resolveMeshFilename options (''package://'' @ pkg @ ''/'' @ rest) = prefix @ ''/'' @ rest"
    unfolding resolveMeshFilename_def m Let_def
    using a t by (auto simp add: startsWith_package simp del: append.simps split: option.splits)
next
  assume a: "pkg \<noteq> [] \<and> CHR ''/'' \<notin> set pkg \<and> rest \<noteq> [] \<and> \<not> list_ex isLineTerminator rest
      \<and> packageMap options = Some pm \<and> map_of (ownProperties pm) pkg = Some prefix
      \<and> prefix \<noteq> []
      \<and> \<not> startsWith (prefix @ ''/'' @ rest) ''/''
      \<and> \<not> startsWith (prefix @ ''/'' @ rest) ''package://''
      \<and> workingPath options = Some wp \<and> wp \<noteq> []"
  then have m: "matchPackageURI (''package://'' @ pkg @ ''/'' @ rest) = Some (pkg, rest)"
    by (intro matchPackageURI_form) simp_all
  from a have t: "truthyProperty pm pkg = Some prefix"
    by (simp add: truthyProperty_def)
  show "resolveMeshFilename options (''package://'' @ pkg @ ''/'' @ rest) =
          wp @ ''/'' @ prefix @ ''/'' @ rest"
    unfolding resolveMeshFilename_def m Let_def
    using a t by (auto simp add: startsWith_package simp del: append.simps split: option.splits)
next
  assume a: "startsWith f ''package://''
      \<and> (\<forall>p r m. matchPackageURI f = Some (p, r) \<longrightarrow> packageMap options = Some m \<longrightarrow>
             (case map_of (ownProperties m) p of
                Some x \<Rightarrow> x = []
              | None \<Rightarrow> inheritedText m p = None))"
  have t: "truthyProperty m p = None"
    if "matchPackageURI f = Some (p, r)" "packageMap options = Some m" for p r m
    using a that by (auto simp: truthyProperty_def split: option.splits)
  show "resolveMeshFilename options f = f"
    unfolding resolveMeshFilename_def Let_def
    using a t by (auto split: option.splits)
next
  assume "f \<noteq> [] \<and> \<not> startsWith f ''package://'' \<and> \<not> startsWith f ''/''
      \<and> workingPath options = Some wp \<and> wp \<noteq> []"
  then show "resolveMeshFilename options f = wp @ ''/'' @ f"
    unfolding resolveMeshFilename_def Let_def by simp
qed

theorem mesh_filename_resolution_witness:
  "resolveMeshFilename exampleOptions ''package://foo/bar.stl'' = ''/x/bar.stl''
   \<and> resolveMeshFilename relativeMapOptions ''package://foo/bar.stl'' = ''/base/x/bar.stl''
   \<and> resolveMeshFilename exampleOptions ''package://other/bar.stl'' = ''package://other/bar.stl''
   \<and> resolveMeshFilename exampleOptions ''meshes/a.stl'' = ''/base/meshes/a.stl''"
proof -
  have e: "packageMap exampleOptions = Some (objectLiteral [(''foo'', ''/x'')])"
          "workingPath exampleOptions = Some ''/base''"
    by (simp_all add: exampleOptions_def)
  have r: "packageMap relativeMapOptions = Some (objectLiteral [(''foo'', ''x''), (''bar'', [])])"
          "workingPath relativeMapOptions = Some ''/base''"
    by (simp_all add: relativeMapOptions_def)
  have m: "matchPackageURI ''package://other/bar.stl'' = Some (''other'', ''bar.stl'')"
    by (simp add: matchPackageURI_def startsWith_def Let_def isLineTerminator_def)
  have 1: "resolveMeshFilename exampleOptions ''package://foo/bar.stl'' = ''/x/bar.stl''"
    using mesh_filename_resolution
            [where pkg = "''foo''" and rest = "''bar.stl''" and options = exampleOptions
               and pm = "objectLiteral [(''foo'', ''/x'')]" and prefix = "''/x''"]
    by (simp add: e objectLiteral_def startsWith_def isLineTerminator_def)
  have 2: "resolveMeshFilename relativeMapOptions ''package://foo/bar.stl'' = ''/base/x/bar.stl''"
    using mesh_filename_resolution
            [where pkg = "''foo''" and rest = "''bar.stl''" and options = relativeMapOptions
               and pm = "objectLiteral [(''foo'', ''x''), (''bar'', [])]" and prefix = "''x''"
               and wp = "''/base''"]
    by (simp add: r objectLiteral_def startsWith_def isLineTerminator_def)
  have 3: "resolveMeshFilename exampleOptions ''package://other/bar.stl'' =
             ''package://other/bar.stl''"
    using mesh_filename_resolution
            [where options = exampleOptions and f = "''package://other/bar.stl''"]
    by (simp add: e m objectLiteral_def objectPrototypeText_def startsWith_def)
  have 4: "resolveMeshFilename exampleOptions ''meshes/a.stl'' = ''/base/meshes/a.stl''"
    using mesh_filename_resolution
            [where options = exampleOptions and f = "''meshes/a.stl''" and wp = "''/base''"]
    by (simp add: e startsWith_def)
  show ?thesis using 1 2 3 4 by blast
qed

section \<open>Errors\<close>

























text \<open>
  With two root elements \<open>robot\<close>, \<open>parsed.robot\<close> is an array: the function reads no
  name, no material, no link and no joint from it, and returns the empty model named
  \<open>robot\<close>, whatever the two elements contain.
\<close>

lemma several_roots_give_the_empty_model:
  "parseURDF pf options twoRobotsDocument =
     Inr \<lparr>m_name = ''robot'', materials = [], links = [], joints = [], rootLink = None\<rparr>"
  by (simp add: parseURDF_def parseRobot_def twoRobotsDocument_def getAttribute_def
      getAttributes_def getChildren_def andThen_def Let_def childLinksOf_def Map_values_def
      Map_keys_def)




end
